theory Spec2Isabelle
  imports
    Complex_Main
    "HOL-Library.Multiset"
    "HOL-Library.Sublist"
    "HOL-Library.Char_ord"
    "HOL-Library.List_Lexorder"
    "HOL-Library.Product_Lexorder"
    "HOL-Library.Option_ord"
begin

section \<open>Air Quality Explorer: the data model of \<open>website.py\<close>\<close>

text \<open>
  The script works on one pandas DataFrame. A cell is a missing value (pandas' NaN), a
  number or a text. A number is a finite float64 (or an integer), which is a rational
  number, so a numeric cell carries a \<^typ>\<open>rat\<close>: the exact value of the float.
  Arithmetic on cells rounds to float64 (section Floats). A text is the list of the bytes
  of its UTF-8 encoding. A frame is its list of column labels and its list of rows, in
  order. The row index labels of pandas are not modelled: nothing in the script reads them.
\<close>

datatype cell = NaN | Num rat | Str string

record dataframe =
  columns :: "string list"
  rows :: "cell list list"

text \<open>
  The exceptions the script can meet; each carries the text of its message (for a
  \<open>KeyError\<close> the repr of the key).
\<close>

datatype exn =
    KeyError string
  | TypeError string
  | ValueError string
  | NameError string
  | OverflowError string
  | PyException string

text \<open>\<open>str(e)\<close>, the text an f-string prints for an exception.\<close>

fun str_exn :: "exn \<Rightarrow> string" where
  "str_exn (KeyError m) = m"
| "str_exn (TypeError m) = m"
| "str_exn (ValueError m) = m"
| "str_exn (NameError m) = m"
| "str_exn (OverflowError m) = m"
| "str_exn (PyException m) = m"

text \<open>
  The repr of a text and of a list of texts, as an f-string prints them. The quoting is that
  of Python for a text without quotes, backslashes and control characters.
\<close>

definition py_repr :: "string \<Rightarrow> string" where
  "py_repr t = [CHR 0x27] @ t @ [CHR 0x27]"

fun join :: "string \<Rightarrow> string list \<Rightarrow> string" where
  "join sep [] = []"
| "join sep [t] = t"
| "join sep (t # ts) = t @ sep @ join sep ts"

definition py_repr_list :: "string list \<Rightarrow> string" where
  "py_repr_list ts = ''['' @ join '', '' (map py_repr ts) @ '']''"

subsection \<open>Floats\<close>

text \<open>
  A float64 has a significand of 53 bits; an operation gives the float nearest to the exact
  result, a tie going to the float with the even significand. \<open>round_frac a b\<close> is the
  float64 nearest to the fraction \<open>a / b\<close> (for \<open>b > 0\<close>), computed on integers: the
  exponent \<open>e\<close> with \<open>2^e \<le> |a / b| < 2^(e+1)\<close> comes from the bit lengths, the unit in
  the last place is \<open>2^(e - 52)\<close> (never below that of the subnormal numbers), and the
  fraction is rounded to a multiple of it. Results beyond the largest float64, which are
  infinite in pandas, are outside the model.
\<close>

function bit_length :: "int \<Rightarrow> int" where
  "bit_length n = (if n \<le> 0 then 0 else 1 + bit_length (n div 2))"
  by pat_completeness auto
termination
  by (relation "measure nat") auto

declare bit_length.simps [simp del]

definition round_div :: "int \<Rightarrow> int \<Rightarrow> int" where
  "round_div a b =
     (let q = a div b; r = 2 * (a mod b)
      in if r < b then q else if b < r then q + 1 else if even q then q else q + 1)"

definition round_frac :: "int \<Rightarrow> int \<Rightarrow> rat" where
  "round_frac a b =
     (if a = 0 then 0
      else let d = bit_length \<bar>a\<bar> - bit_length b;
               e = (if (if 0 \<le> d then 2 ^ nat d * b \<le> \<bar>a\<bar> else b \<le> 2 ^ nat (- d) * \<bar>a\<bar>)
                    then d else d - 1);
               k = max e (- 1022) - 52
           in if 0 \<le> k then of_int (round_div a (b * 2 ^ nat k) * 2 ^ nat k)
              else of_int (round_div (a * 2 ^ nat (- k)) b) / of_int (2 ^ nat (- k)))"

definition float64 :: "rat \<Rightarrow> rat" where
  "float64 x = (case quotient_of x of (a, b) \<Rightarrow> round_frac a b)"

text \<open>
  \<open>float(n)\<close> of a Python int, as numpy converts an int operand of a float64 column: the
  nearest float, and \<open>OverflowError\<close> when that is beyond the largest float64.
\<close>

definition float64_of_int :: "int \<Rightarrow> exn + rat" where
  "float64_of_int n =
     (let x = round_frac n 1 in
      if 2 ^ 1024 \<le> \<bar>x\<bar> then Inl (OverflowError ''int too large to convert to float'')
      else Inr x)"

text \<open>
  The sum of a float64 column, added in the order of the rows. (pandas adds in blocks, and
  with a compensation term in \<open>groupby\<close>; the result is the same float whenever no
  addition rounds, as with integers whose sum stays below \<open>2^53\<close>.)
\<close>

definition float_sum :: "rat list \<Rightarrow> rat" where
  "float_sum vs = foldl (\<lambda>acc v. float64 (acc + v)) 0 vs"

subsection \<open>The pandas operations the script calls\<close>

text \<open>
  \<open>pd.DataFrame()\<close>: no columns and no rows.
\<close>

definition empty_frame :: dataframe where
  "empty_frame = \<lparr>columns = [], rows = []\<rparr>"

text \<open>
  A row shorter than the header is padded with NaN, as \<open>read_csv\<close> does.
\<close>

definition cell_at :: "cell list \<Rightarrow> nat \<Rightarrow> cell" where
  "cell_at r i = (if i < length r then r ! i else NaN)"

fun index_of :: "string \<Rightarrow> string list \<Rightarrow> nat option" where
  "index_of n [] = None"
| "index_of n (c # cs) = (if c = n then Some 0 else map_option Suc (index_of n cs))"

text \<open>
  \<open>row[name]\<close> for a row of a frame with the labels \<open>cols\<close>, and \<open>df[name]\<close>, the
  column as a Series. A label that is not a column raises \<open>KeyError\<close>.
\<close>

definition row_get :: "string list \<Rightarrow> cell list \<Rightarrow> string \<Rightarrow> exn + cell" where
  "row_get cols r name =
     (case index_of name cols of
        None \<Rightarrow> Inl (KeyError (py_repr name))
      | Some i \<Rightarrow> Inr (cell_at r i))"

definition getitem :: "dataframe \<Rightarrow> string \<Rightarrow> exn + cell list" where
  "getitem df name =
     (case index_of name (columns df) of
        None \<Rightarrow> Inl (KeyError (py_repr name))
      | Some i \<Rightarrow> Inr (map (\<lambda>r. cell_at r i) (rows df)))"

fun is_str :: "cell \<Rightarrow> bool" where
  "is_str (Str s) = True"
| "is_str c = False"

fun is_nan :: "cell \<Rightarrow> bool" where
  "is_nan NaN = True"
| "is_nan c = False"

text \<open>
  \<open>series >= x\<close> and \<open>series <= x\<close> for a Python int \<open>x\<close>: a comparison of a text
  with a number raises \<open>TypeError\<close>; otherwise the int is converted to a float64 and each
  cell is compared with it, a comparison with NaN being False. (A column of integers
  without a missing cell is int64 in pandas and compared with the int itself; that is the
  same comparison whenever the int is at most \<open>2^53\<close> in magnitude.)
\<close>

fun cell_ge :: "rat \<Rightarrow> cell \<Rightarrow> bool" where
  "cell_ge x (Num v) = (x \<le> v)"
| "cell_ge x c = False"

fun cell_le :: "rat \<Rightarrow> cell \<Rightarrow> bool" where
  "cell_le x (Num v) = (v \<le> x)"
| "cell_le x c = False"

definition series_ge :: "cell list \<Rightarrow> int \<Rightarrow> exn + bool list" where
  "series_ge s x =
     (if list_ex is_str s then Inl (TypeError ''>= not supported between str and int'')
      else (case float64_of_int x of
              Inl e \<Rightarrow> Inl e
            | Inr b \<Rightarrow> Inr (map (cell_ge b) s)))"

definition series_le :: "cell list \<Rightarrow> int \<Rightarrow> exn + bool list" where
  "series_le s x =
     (if list_ex is_str s then Inl (TypeError ''<= not supported between str and int'')
      else (case float64_of_int x of
              Inl e \<Rightarrow> Inl e
            | Inr b \<Rightarrow> Inr (map (cell_le b) s)))"

text \<open>\<open>m1 & m2\<close> on two boolean Series of one frame, and \<open>df[mask]\<close>.\<close>

definition mask_and :: "bool list \<Rightarrow> bool list \<Rightarrow> bool list" where
  "mask_and m1 m2 = map2 (\<and>) m1 m2"

definition bool_index :: "dataframe \<Rightarrow> bool list \<Rightarrow> dataframe" where
  "bool_index df m = df\<lparr>rows := map fst (filter snd (zip (rows df) m))\<rparr>"

text \<open>
  \<open>series.isin(values)\<close>: membership of each cell; pandas lets a missing cell match a
  missing value of the list.
\<close>

definition isin :: "cell list \<Rightarrow> cell list \<Rightarrow> bool list" where
  "isin s vals = map (\<lambda>c. c \<in> set vals) s"

text \<open>\<open>df[df[name].isin(vals)]\<close>, the form of the three membership filters.\<close>

definition isin_rows :: "dataframe \<Rightarrow> string \<Rightarrow> cell list \<Rightarrow> exn + dataframe" where
  "isin_rows df name vals =
     (case getitem df name of
        Inl e \<Rightarrow> Inl e
      | Inr s \<Rightarrow> Inr (bool_index df (isin s vals)))"

text \<open>
  \<open>series.map(d)\<close> with a dict \<open>d\<close>: a cell that is no key of the dict becomes NaN.
\<close>

definition series_map :: "(string \<times> int) list \<Rightarrow> cell list \<Rightarrow> cell list" where
  "series_map d s =
     map (\<lambda>c. case c of
                 Str t \<Rightarrow> (case map_of d t of Some n \<Rightarrow> Num (of_int n) | None \<Rightarrow> NaN)
               | _ \<Rightarrow> NaN) s"

text \<open>
  \<open>df.drop_duplicates()\<close>: a row whose cells all equal those of an earlier row is
  removed, the first occurrence stays (\<open>keep='first'\<close>); two missing cells count as equal.
  The cells of a row are those under the header, \<open>row_cells\<close>.
\<close>

definition row_cells :: "nat \<Rightarrow> cell list \<Rightarrow> cell list" where
  "row_cells n r = map (cell_at r) [0..<n]"

fun drop_dups_by :: "('a \<Rightarrow> 'b) \<Rightarrow> 'b list \<Rightarrow> 'a list \<Rightarrow> 'a list" where
  "drop_dups_by f seen [] = []"
| "drop_dups_by f seen (x # xs) =
     (if f x \<in> set seen then drop_dups_by f seen xs
      else x # drop_dups_by f (f x # seen) xs)"

definition drop_duplicates :: "dataframe \<Rightarrow> dataframe" where
  "drop_duplicates df =
     df\<lparr>rows := drop_dups_by (row_cells (length (columns df))) [] (rows df)\<rparr>"

text \<open>
  \<open>df.dropna(subset=labels)\<close>: a label that is no column raises \<open>KeyError\<close> with the
  list of the absent labels; otherwise the rows with a missing cell in one of the labelled
  columns are removed.
\<close>

definition dropna :: "dataframe \<Rightarrow> string list \<Rightarrow> exn + dataframe" where
  "dropna df labels =
     (let absent = filter (\<lambda>l. l \<notin> set (columns df)) labels in
      if absent \<noteq> [] then Inl (KeyError (py_repr_list absent))
      else Inr (df\<lparr>rows :=
              filter (\<lambda>r. \<forall>l \<in> set labels. row_get (columns df) r l \<noteq> Inr NaN) (rows df)\<rparr>))"

text \<open>
  \<open>text.strip()\<close>: leading and trailing whitespace removed. The whitespace characters of
  Python are the code points 9 to 13, 28 to 32, U+0085, U+00A0, U+1680, U+2000 to U+200A,
  U+2028, U+2029, U+202F, U+205F and U+3000; \<open>whitespace\<close> lists their UTF-8 encodings.
  No encoding is the beginning of another, and in UTF-8 none can end inside another
  character.
\<close>

definition whitespace :: "string list" where
  "whitespace =
     [[CHR 0x09], [CHR 0x0A], [CHR 0x0B], [CHR 0x0C], [CHR 0x0D],
      [CHR 0x1C], [CHR 0x1D], [CHR 0x1E], [CHR 0x1F], [CHR 0x20],
      [CHR 0xC2, CHR 0x85], [CHR 0xC2, CHR 0xA0], [CHR 0xE1, CHR 0x9A, CHR 0x80],
      [CHR 0xE2, CHR 0x80, CHR 0x80], [CHR 0xE2, CHR 0x80, CHR 0x81],
      [CHR 0xE2, CHR 0x80, CHR 0x82], [CHR 0xE2, CHR 0x80, CHR 0x83],
      [CHR 0xE2, CHR 0x80, CHR 0x84], [CHR 0xE2, CHR 0x80, CHR 0x85],
      [CHR 0xE2, CHR 0x80, CHR 0x86], [CHR 0xE2, CHR 0x80, CHR 0x87],
      [CHR 0xE2, CHR 0x80, CHR 0x88], [CHR 0xE2, CHR 0x80, CHR 0x89],
      [CHR 0xE2, CHR 0x80, CHR 0x8A], [CHR 0xE2, CHR 0x80, CHR 0xA8],
      [CHR 0xE2, CHR 0x80, CHR 0xA9], [CHR 0xE2, CHR 0x80, CHR 0xAF],
      [CHR 0xE2, CHR 0x81, CHR 0x9F], [CHR 0xE3, CHR 0x80, CHR 0x80]]"

text \<open>
  The number of bytes of the whitespace character a text begins with, or ends with;
  0 when it begins, or ends, with none.
\<close>

definition leading_space :: "string \<Rightarrow> nat" where
  "leading_space t =
     (case find (\<lambda>w. take (length w) t = w) whitespace of
        Some w \<Rightarrow> length w
      | None \<Rightarrow> 0)"

definition trailing_space :: "string \<Rightarrow> nat" where
  "trailing_space t =
     (case find (\<lambda>w. length w \<le> length t \<and> drop (length t - length w) t = w) whitespace of
        Some w \<Rightarrow> length w
      | None \<Rightarrow> 0)"

function lstrip :: "string \<Rightarrow> string" where
  "lstrip t = (if leading_space t = 0 then t else lstrip (drop (leading_space t) t))"
  by pat_completeness auto
termination
proof (relation "measure length")
  fix t assume "leading_space t \<noteq> 0"
  then obtain w where "find (\<lambda>w. take (length w) t = w) whitespace = Some w"
    and "leading_space t = length w" and "w \<noteq> []"
    by (auto simp: leading_space_def split: option.splits)
  then have "take (length w) t = w" by (auto simp: find_Some_iff)
  with \<open>w \<noteq> []\<close> have "t \<noteq> []" by auto
  with \<open>leading_space t = length w\<close> \<open>w \<noteq> []\<close>
  show "(drop (leading_space t) t, t) \<in> measure length" by simp
qed simp

function rstrip :: "string \<Rightarrow> string" where
  "rstrip t =
     (if trailing_space t = 0 then t else rstrip (take (length t - trailing_space t) t))"
  by pat_completeness auto
termination
proof (relation "measure length")
  fix t assume "trailing_space t \<noteq> 0"
  then obtain w where
    "find (\<lambda>w. length w \<le> length t \<and> drop (length t - length w) t = w) whitespace = Some w"
    and "trailing_space t = length w" and "w \<noteq> []"
    by (auto simp: trailing_space_def split: option.splits)
  then have "length w \<le> length t" by (auto simp: find_Some_iff)
  with \<open>w \<noteq> []\<close> have "t \<noteq> []" by auto
  with \<open>trailing_space t = length w\<close> \<open>w \<noteq> []\<close>
  show "(take (length t - trailing_space t) t, t) \<in> measure length" by simp
qed simp

declare lstrip.simps [simp del]

declare rstrip.simps [simp del]

definition strip :: "string \<Rightarrow> string" where
  "strip t = rstrip (lstrip t)"

text \<open>A text that consists of whitespace characters only.\<close>

inductive blank :: "string \<Rightarrow> bool" where
  blank_Nil: "blank []"
| blank_Cons: "w \<in> set whitespace \<Longrightarrow> blank t \<Longrightarrow> blank (w @ t)"

text \<open>
  The numbers of a Series, and \<open>series.mean()\<close>, \<open>series.min()\<close>, \<open>series.max()\<close>:
  missing cells are skipped; with no number left the result is NaN. The mean is the float
  sum divided by the count, rounded to a float. A Series of texts only has a least and a
  greatest text (by character code) and no mean; a Series that mixes texts with numbers
  or missing cells raises \<open>TypeError\<close>.
\<close>

fun numbers :: "cell list \<Rightarrow> rat list" where
  "numbers [] = []"
| "numbers (Num v # cs) = v # numbers cs"
| "numbers (c # cs) = numbers cs"

fun the_str :: "cell \<Rightarrow> string" where
  "the_str (Str t) = t"
| "the_str c = []"

definition mean_of :: "cell list \<Rightarrow> cell" where
  "mean_of s =
     (let vs = numbers s in
      if vs = [] then NaN else Num (float64 (float_sum vs / of_nat (length vs))))"

definition series_mean :: "cell list \<Rightarrow> exn + cell" where
  "series_mean s =
     (if list_ex is_str s then Inl (TypeError ''Could not convert string to numeric'')
      else Inr (mean_of s))"

definition series_min :: "cell list \<Rightarrow> exn + cell" where
  "series_min s =
     (if list_ex is_str s
      then (if list_all is_str s
            then Inr (Str (fold min (map the_str (tl s)) (the_str (hd s))))
            else Inl (TypeError ''<= not supported between str and float''))
      else Inr (case numbers s of [] \<Rightarrow> NaN | v # vs \<Rightarrow> Num (fold min vs v)))"

definition series_max :: "cell list \<Rightarrow> exn + cell" where
  "series_max s =
     (if list_ex is_str s
      then (if list_all is_str s
            then Inr (Str (fold max (map the_str (tl s)) (the_str (hd s))))
            else Inl (TypeError ''>= not supported between str and float''))
      else Inr (case numbers s of [] \<Rightarrow> NaN | v # vs \<Rightarrow> Num (fold max vs v)))"

text \<open>
  \<open>df.nlargest(n, col)\<close> with the default \<open>keep='first'\<close>: the rows with a number in the
  column, in descending order of it, rows of equal value in their original order (a stable
  sort of the negated values, as pandas does it), then the rows with a missing value; of
  these the first \<open>n\<close>. A column with a text has dtype object and raises \<open>TypeError\<close>.
\<close>

fun num_val :: "cell \<Rightarrow> rat" where
  "num_val (Num v) = v"
| "num_val c = 0"

definition ranked :: "nat \<Rightarrow> cell list list \<Rightarrow> cell list list" where
  "ranked i rs =
     sort_key (\<lambda>r. - num_val (cell_at r i)) (filter (\<lambda>r. \<not> is_nan (cell_at r i)) rs)
     @ filter (\<lambda>r. is_nan (cell_at r i)) rs"

definition nlargest :: "nat \<Rightarrow> string \<Rightarrow> dataframe \<Rightarrow> exn + dataframe" where
  "nlargest n col df =
     (case index_of col (columns df) of
        None \<Rightarrow> Inl (KeyError (py_repr col))
      | Some i \<Rightarrow>
          if list_ex (\<lambda>r. is_str (cell_at r i)) (rows df)
          then Inl (TypeError ''Cannot use method nlargest with dtype object'')
          else Inr (df\<lparr>rows := take n (ranked i (rows df))\<rparr>))"

text \<open>
  The value a cell is ranked by: a number by itself, a missing value below every number.
\<close>

fun key_of :: "cell \<Rightarrow> rat option" where
  "key_of (Num v) = Some v"
| "key_of c = None"

text \<open>
  The order pandas sorts group keys in: numbers before texts, numbers by value, texts
  lexicographically by character code.
\<close>

fun cell_rank :: "cell \<Rightarrow> nat \<times> rat \<times> string" where
  "cell_rank (Num v) = (0, v, [])"
| "cell_rank (Str t) = (1, 0, t)"
| "cell_rank NaN = (2, 0, [])"

text \<open>
  \<open>df.pivot_table(index=idx, values=col, aggfunc='mean').reset_index()\<close>: the rows are
  grouped by the cell in the index column, rows with a missing key are left out
  (\<open>groupby\<close> drops them), the groups are sorted by key, each key is paired with the mean
  of the group's values, and a group whose values are all missing is dropped
  (\<open>dropna=True\<close>). The result has the two columns \<open>idx\<close> and \<open>col\<close>; when no group
  is left, the value column, being empty, is dropped as well and only \<open>idx\<close> remains.
\<close>

definition group_keys :: "cell list \<Rightarrow> cell list" where
  "group_keys s = sort_key cell_rank (remdups (filter (\<lambda>c. \<not> is_nan c) s))"

definition pivot_table :: "dataframe \<Rightarrow> string \<Rightarrow> string \<Rightarrow> exn + dataframe" where
  "pivot_table df idx col =
     (case index_of col (columns df) of
        None \<Rightarrow> Inl (KeyError (py_repr col))
      | Some j \<Rightarrow>
          (case index_of idx (columns df) of
             None \<Rightarrow> Inl (KeyError (py_repr idx))
           | Some i \<Rightarrow>
               if list_ex (\<lambda>r. is_str (cell_at r j)) (rows df)
               then Inl (TypeError ''agg function failed [how->mean,dtype->object]'')
               else
                 let groups =
                       map (\<lambda>k. [k, mean_of (map (\<lambda>r. cell_at r j)
                                               (filter (\<lambda>r. cell_at r i = k) (rows df)))])
                           (group_keys (map (\<lambda>r. cell_at r i) (rows df)));
                     kept = filter (\<lambda>g. \<not> is_nan (g ! 1)) groups
                 in if kept = [] then Inr \<lparr>columns = [idx], rows = []\<rparr>
                    else Inr \<lparr>columns = [idx, col], rows = kept\<rparr>))"

text \<open>A Python dict keeps its keys in insertion order: an association list.\<close>

definition dict_get :: "('k \<times> 'v) list \<Rightarrow> 'k \<Rightarrow> 'v \<Rightarrow> 'v" where
  "dict_get d k dflt = (case map_of d k of Some v \<Rightarrow> v | None \<Rightarrow> dflt)"

fun dict_set :: "('k \<times> 'v) list \<Rightarrow> 'k \<Rightarrow> 'v \<Rightarrow> ('k \<times> 'v) list" where
  "dict_set [] k v = [(k, v)]"
| "dict_set ((k', v') # d) k v =
     (if k' = k then (k, v) # d else (k', v') # dict_set d k v)"

subsection \<open>The filter function and the category table\<close>

text \<open>
  The numeric predicate on one row: the cell of the row in the pollutant column is a number
  between the two bounds, both included.
\<close>

definition in_range :: "string list \<Rightarrow> string \<Rightarrow> rat \<Rightarrow> rat \<Rightarrow> cell list \<Rightarrow> bool" where
  "in_range cols pollutant low high r =
     (case row_get cols r pollutant of
        Inr (Num v) \<Rightarrow> low \<le> v \<and> v \<le> high
      | _ \<Rightarrow> False)"

text \<open>
  \<^verbatim>\<open>def filter_data(df, pollutant, low=min_val, high=max_val):
    return df[(df[pollutant] >= low) & (df[pollutant] <= high)]\<close>
  The bounds are Python ints, as the slider returns them and as the defaults are.
\<close>

definition filter_data :: "dataframe \<Rightarrow> string \<Rightarrow> int \<Rightarrow> int \<Rightarrow> exn + dataframe" where
  "filter_data df pollutant low high =
     (case getitem df pollutant of
        Inl e \<Rightarrow> Inl e
      | Inr s \<Rightarrow>
          (case series_ge s low of
             Inl e \<Rightarrow> Inl e
           | Inr m1 \<Rightarrow>
               (case series_le s high of
                  Inl e \<Rightarrow> Inl e
                | Inr m2 \<Rightarrow> Inr (bool_index df (mask_and m1 m2)))))"

definition category_map :: "(string \<times> int) list" where
  "category_map =
     [(''Good'', 1), (''Moderate'', 2), (''Unhealthy for Sensitive Groups'', 3),
      (''Unhealthy'', 4), (''Very Unhealthy'', 5), (''Hazardous'', 6)]"

text \<open>The code of one category cell, as \<open>.map(category_map)\<close> computes it.\<close>

definition encode :: "cell \<Rightarrow> cell" where
  "encode c = hd (series_map category_map [c])"

subsection \<open>The loader\<close>

text \<open>
  \<^verbatim>\<open>def load_data(filepath):
    try:
        df = pd.read_csv(filepath)
    except Exception as e:
        st.error(f"Error loading data: {e}")
        return pd.DataFrame()
    df = df.drop_duplicates()
    df = df.dropna(subset=['lat', 'lng'])
    df.columns = df.columns.str.strip()
    return df\<close>
  The file system and the CSV parser are the parameter \<open>read_csv\<close>: for a path it gives
  the parsed frame or the exception raised. The result is the list of messages shown with
  \<open>st.error\<close> and the frame returned, or the exception that leaves \<open>load_data\<close>.
\<close>

definition load_data ::
  "(string \<Rightarrow> exn + dataframe) \<Rightarrow> string \<Rightarrow> string list \<times> (exn + dataframe)" where
  "load_data read_csv filepath =
     (case read_csv filepath of
        Inl e \<Rightarrow> ([''Error loading data: '' @ str_exn e], Inr empty_frame)
      | Inr df \<Rightarrow>
          (case dropna (drop_duplicates df) [''lat'', ''lng''] of
             Inl e \<Rightarrow> ([], Inl e)
           | Inr df' \<Rightarrow> ([], Inr (df'\<lparr>columns := map strip (columns df')\<rparr>))))"

subsection \<open>The two filtered views\<close>

text \<open>
  \<^verbatim>\<open>filtered = filter_data(data, pollutant_col, min_val, max_val)
filtered = filtered[filtered['Country'].isin(countries)]\<close>
\<close>

definition filtered ::
  "dataframe \<Rightarrow> string \<Rightarrow> int \<Rightarrow> int \<Rightarrow> cell list \<Rightarrow> exn + dataframe" where
  "filtered data pollutant_col min_val max_val countries =
     (case filter_data data pollutant_col min_val max_val of
        Inl e \<Rightarrow> Inl e
      | Inr f \<Rightarrow> isin_rows f ''Country'' countries)"

text \<open>
  \<^verbatim>\<open>filtered_data = data.copy()
if selected_cities:
    filtered_data = filtered_data[filtered_data['City'].isin(selected_cities)]
if selected_categories:
    filtered_data = filtered_data[filtered_data['AQI Category'].isin(selected_categories)]\<close>
\<close>

definition filtered_data :: "dataframe \<Rightarrow> cell list \<Rightarrow> cell list \<Rightarrow> exn + dataframe" where
  "filtered_data data selected_cities selected_categories =
     (case (if selected_cities \<noteq> [] then isin_rows data ''City'' selected_cities
            else Inr data) of
        Inl e \<Rightarrow> Inl e
      | Inr fd \<Rightarrow>
          (if selected_categories \<noteq> []
           then isin_rows fd ''AQI Category'' selected_categories
           else Inr fd))"

text \<open>
  The membership predicate on one row: the cell of the row in the named column is one of
  the selected values. And the filter of the specification (section 4.3), which has all
  the predicates in one view: the numeric range, and for each of country, city and
  category the membership in the selection, an empty selection being no constraint.
\<close>

definition cell_in :: "string list \<Rightarrow> string \<Rightarrow> cell list \<Rightarrow> cell list \<Rightarrow> bool" where
  "cell_in cols name vals r =
     (case row_get cols r name of Inr c \<Rightarrow> c \<in> set vals | Inl e \<Rightarrow> False)"

definition spec_filter ::
  "dataframe \<Rightarrow> string \<Rightarrow> rat \<Rightarrow> rat \<Rightarrow> cell list \<Rightarrow> cell list \<Rightarrow> cell list
     \<Rightarrow> cell list list" where
  "spec_filter data pollutant low high countries cities categories =
     filter (\<lambda>r. in_range (columns data) pollutant low high r \<and>
                 (countries = [] \<or> cell_in (columns data) ''Country'' countries r) \<and>
                 (cities = [] \<or> cell_in (columns data) ''City'' cities r) \<and>
                 (categories = [] \<or> cell_in (columns data) ''AQI Category'' categories r))
       (rows data)"

subsection \<open>The aggregates\<close>

text \<open>
  \<^verbatim>\<open>def get_stats(df, col):
    return df[col].mean(), df[col].min(), df[col].max()\<close>
\<close>

definition get_stats :: "dataframe \<Rightarrow> string \<Rightarrow> exn + cell \<times> cell \<times> cell" where
  "get_stats df col =
     (case getitem df col of
        Inl e \<Rightarrow> Inl e
      | Inr s \<Rightarrow>
          (case series_mean s of
             Inl e \<Rightarrow> Inl e
           | Inr mean_val \<Rightarrow>
               (case series_min s of
                  Inl e \<Rightarrow> Inl e
                | Inr min_val \<Rightarrow>
                    (case series_max s of
                       Inl e \<Rightarrow> Inl e
                     | Inr max_val \<Rightarrow> Inr (mean_val, min_val, max_val)))))"

text \<open>
  \<^verbatim>\<open>cat_counts = {}
for idx, row in filtered.iterrows():
    cat = row['AQI Category']
    cat_counts[cat] = cat_counts.get(cat, 0) + 1\<close>
  The loop over the rows, with the dict as the accumulator. (A missing category is counted
  under the key NaN.)
\<close>

fun cat_counts_loop ::
  "string list \<Rightarrow> cell list list \<Rightarrow> (cell \<times> nat) list \<Rightarrow> exn + (cell \<times> nat) list" where
  "cat_counts_loop cols [] counts = Inr counts"
| "cat_counts_loop cols (row # rest) counts =
     (case row_get cols row ''AQI Category'' of
        Inl e \<Rightarrow> Inl e
      | Inr cat \<Rightarrow> cat_counts_loop cols rest (dict_set counts cat (dict_get counts cat 0 + 1)))"

definition cat_counts :: "dataframe \<Rightarrow> exn + (cell \<times> nat) list" where
  "cat_counts df = cat_counts_loop (columns df) (rows df) []"

subsection \<open>The script, top to bottom\<close>

text \<open>
  What a run shows is the list of the rendering calls made, in order; how a run ends is
  its outcome: it gets to the last line, it is halted by \<open>st.stop()\<close>, or an exception
  leaves the script. (\<open>st.set_page_config\<close> of line 18 renders nothing and is left out.)
\<close>

datatype widget =
    StError string
  | SidebarHeader string
  | SidebarMarkdown string
  | Title string
  | ShowingFor string int int string
  | DataTable dataframe
  | Metric string cell
  | BarChart "(cell \<times> cell) list"
  | Histogram "cell list"
  | Subheader string
  | PivotTable dataframe
  | LevelCodes dataframe
  | CategoryCounts "(cell \<times> nat) list"
  | BubbleMap dataframe
  | DownloadButton dataframe
  | AqiColumns "string list"

datatype outcome = Finished | Stopped | Raised exn

text \<open>
  The user and the Streamlit widgets are a parameter of the run: each control, given the
  arguments of the call, returns the value chosen or raises.
\<close>

record ui =
  selectbox :: "string list \<Rightarrow> exn + string"
  slider :: "int \<Rightarrow> int \<Rightarrow> int \<times> int \<Rightarrow> exn + int \<times> int"
  countries_multiselect :: "cell list \<Rightarrow> cell list \<Rightarrow> exn + cell list"
  cities_multiselect :: "cell list \<Rightarrow> exn + cell list"
  categories_multiselect :: "cell list \<Rightarrow> cell list \<Rightarrow> exn + cell list"

text \<open>A step that may raise: the exception ends the run with what was shown so far.\<close>

definition attempt ::
  "exn + 'a \<Rightarrow> widget list \<Rightarrow> ('a \<Rightarrow> widget list \<times> outcome) \<Rightarrow> widget list \<times> outcome" where
  "attempt m out k = (case m of Inl e \<Rightarrow> (out, Raised e) | Inr x \<Rightarrow> k x)"

definition required_cols :: "string list" where
  "required_cols =
     [''AQI Value'', ''CO AQI Value'', ''Ozone AQI Value'', ''NO2 AQI Value'',
      ''PM2.5 AQI Value'']"

definition pollutant_dict :: "(string \<times> string) list" where
  "pollutant_dict =
     [(''Overall AQI'', ''AQI Value''),
      (''Carbon Monoxide'', ''CO AQI Value''),
      (''Ozone'', ''Ozone AQI Value''),
      (''Nitrogen Dioxide'', ''NO2 AQI Value''),
      (''PM2.5'', ''PM2.5 AQI Value'')]"

definition default_countries :: "cell list" where
  "default_countries =
     [Str ''United States of America'', Str ''China'', Str ''Brazil'', Str ''Italy'',
      Str ''Russian Federation'', Str ''France'']"

text \<open>\<open>pollutant_dict[pollutant_label]\<close>.\<close>

definition dict_getitem :: "(string \<times> 'v) list \<Rightarrow> string \<Rightarrow> exn + 'v" where
  "dict_getitem d k = (case map_of d k of None \<Rightarrow> Inl (KeyError (py_repr k)) | Some v \<Rightarrow> Inr v)"

text \<open>
  \<open>int(x)\<close>. Of a float: truncation towards zero; NaN raises \<open>ValueError\<close>. Of a text:
  the text is stripped and read as a decimal literal, an optional sign and digits, with
  single underscores allowed between digits; any other text raises \<open>ValueError\<close>. (The
  digits read are the ASCII digits.)
\<close>

definition is_digit :: "char \<Rightarrow> bool" where
  "is_digit c = (48 \<le> (of_char c :: nat) \<and> (of_char c :: nat) \<le> 57)"

fun parse_digits :: "string \<Rightarrow> int \<Rightarrow> bool \<Rightarrow> int option" where
  "parse_digits [] acc after_digit = (if after_digit then Some acc else None)"
| "parse_digits (c # cs) acc after_digit =
     (if is_digit c then parse_digits cs (10 * acc + (int (of_char c) - 48)) True
      else if c = CHR ''_'' \<and> after_digit \<and> cs \<noteq> [] \<and> is_digit (hd cs)
      then parse_digits cs acc False
      else None)"

definition int_of_text :: "string \<Rightarrow> exn + int" where
  "int_of_text t =
     (let u = strip t;
          negative = (u \<noteq> [] \<and> hd u = CHR ''-'');
          digits = (if u \<noteq> [] \<and> (hd u = CHR ''-'' \<or> hd u = CHR ''+'') then tl u else u)
      in case parse_digits digits 0 False of
           None \<Rightarrow> Inl (ValueError ''invalid literal for int() with base 10'')
         | Some n \<Rightarrow> Inr (if negative then - n else n))"

fun py_int :: "cell \<Rightarrow> exn + int" where
  "py_int (Num v) = Inr (if 0 \<le> v then \<lfloor>v\<rfloor> else \<lceil>v\<rceil>)"
| "py_int NaN = Inl (ValueError ''cannot convert float NaN to integer'')"
| "py_int (Str t) = int_of_text t"

text \<open>\<open>series.unique()\<close>: the distinct cells in the order of their first occurrence.\<close>

definition unique :: "cell list \<Rightarrow> cell list" where
  "unique s = rev (remdups (rev s))"

text \<open>
  \<open>sorted(series.dropna().unique())\<close>: numbers and texts cannot be compared with each
  other.
\<close>

definition sorted_options :: "cell list \<Rightarrow> exn + cell list" where
  "sorted_options s =
     (let opts = unique (filter (\<lambda>c. \<not> is_nan c) s) in
      if list_ex is_str opts \<and> list_ex (\<lambda>c. \<not> is_str c) opts
      then Inl (TypeError ''< not supported between str and float'')
      else Inr (sort_key cell_rank opts))"

text \<open>\<open>', '.join(countries)\<close>: every item must be a text.\<close>

definition join_cells :: "string \<Rightarrow> cell list \<Rightarrow> exn + string" where
  "join_cells sep cs =
     (if list_all is_str cs then Inr (join sep (map the_str cs))
      else Inl (TypeError ''sequence item: expected str instance, float found''))"

text \<open>
  The names bound at module level when line 107 runs: those of the five import
  statements (lines 11 to 15) and those assigned or defined by the lines before it.
  A name that is none of them (and no builtin) raises \<open>NameError\<close>. The later lines
  bind \<open>fig\<close>, \<open>ax\<close> and other names, never \<open>plt\<close>, so the same list serves for
  the lookups of lines 112 and 116.
\<close>

definition imported_names :: "string list" where
  "imported_names = [''st'', ''pd'', ''pdk'', ''sns'', ''px'']"

definition assigned_names :: "string list" where
  "assigned_names =
     [''load_data'', ''data'', ''required_cols'', ''missing'', ''pollutant_dict'',
      ''pollutant_label'', ''pollutant_col'', ''min_val'', ''max_val'', ''countries'',
      ''filter_data'', ''filtered'', ''get_stats'', ''mean_val'', ''min_val_stat'',
      ''max_val_stat'', ''top10'']"

definition lookup_name :: "string \<Rightarrow> exn + unit" where
  "lookup_name n =
     (if n \<in> set (imported_names @ assigned_names) then Inr ()
      else Inl (NameError (''name '' @ py_repr n @ '' is not defined'')))"

text \<open>\<open>[c for c in data.columns if 'AQI' in c]\<close>.\<close>

fun contains :: "string \<Rightarrow> string \<Rightarrow> bool" where
  "contains sub [] = (sub = [])"
| "contains sub (c # cs) = (take (length sub) (c # cs) = sub \<or> contains sub cs)"

text \<open>
  Lines 108 to 182: the bar chart, the histogram, the pivot table, the level codes, the
  category counts, the map with its two selections, the download button and the list of
  AQI columns.
\<close>

definition charts_tables_map ::
  "ui \<Rightarrow> dataframe \<Rightarrow> dataframe \<Rightarrow> string \<Rightarrow> dataframe \<Rightarrow> widget list
     \<Rightarrow> widget list \<times> outcome" where
  "charts_tables_map u data view pollutant_col top10 out =
     attempt (getitem top10 ''City'') out (\<lambda>top_cities.
     attempt (getitem top10 pollutant_col) out (\<lambda>top_values.
     attempt (lookup_name ''plt'') out (\<lambda>_.
     let out1 = out @ [BarChart (zip top_cities top_values)] in
     attempt (lookup_name ''plt'') out1 (\<lambda>_.
     attempt (getitem data pollutant_col) out1 (\<lambda>all_values.
     let out2 = out1 @ [Histogram all_values] in
     attempt (pivot_table view ''Country'' pollutant_col) out2 (\<lambda>pivot.
     let out3 = out2 @ [Subheader ''Average AQI by Country'', PivotTable pivot] in
     attempt (getitem view ''AQI Category'') out3 (\<lambda>cats.
     attempt (getitem view ''City'') (out3 @ [Subheader ''AQI Level Codes'']) (\<lambda>cities.
     let levels = \<lparr>columns = [''City'', ''AQI Category'', ''AQI_Level''],
                    rows = map (\<lambda>(city, cat). [city, cat, encode cat]) (zip cities cats)\<rparr>;
         out4 = out3 @ [Subheader ''AQI Level Codes'', LevelCodes levels] in
     attempt (cat_counts view) out4 (\<lambda>counts.
     let out5 = out4 @ [CategoryCounts counts] in
     attempt (getitem data ''City'') out5 (\<lambda>city_series.
     attempt (sorted_options city_series) out5 (\<lambda>city_options.
     attempt (cities_multiselect u city_options) out5 (\<lambda>selected_cities.
     attempt (getitem data ''AQI Category'') out5 (\<lambda>cat_series.
     attempt (sorted_options cat_series) out5 (\<lambda>aqi_categories.
     attempt (categories_multiselect u aqi_categories aqi_categories) out5
       (\<lambda>selected_categories.
     attempt (filtered_data data selected_cities selected_categories) out5 (\<lambda>fd.
     (out5 @ [BubbleMap fd, DownloadButton fd,
              AqiColumns (filter (contains ''AQI'') (columns data))],
      Finished)))))))))))))))))"

text \<open>
  Lines 106 and 107: the top ten of the view, and the call \<open>plt.subplots()\<close>, which
  looks the name \<open>plt\<close> up; then the rest of the page.
\<close>

definition top10_chart ::
  "ui \<Rightarrow> dataframe \<Rightarrow> dataframe \<Rightarrow> string \<Rightarrow> widget list \<Rightarrow> widget list \<times> outcome" where
  "top10_chart u data view pollutant_col out =
     attempt (nlargest 10 pollutant_col view) out (\<lambda>top10.
     attempt (lookup_name ''plt'') out (\<lambda>_.
     charts_tables_map u data view pollutant_col top10 out))"

text \<open>Lines 100 to 103: the statistics of the view and the three metrics.\<close>

definition summary_metrics ::
  "ui \<Rightarrow> dataframe \<Rightarrow> dataframe \<Rightarrow> string \<Rightarrow> widget list \<Rightarrow> widget list \<times> outcome" where
  "summary_metrics u data view pollutant_col out =
     attempt (get_stats view pollutant_col) out (\<lambda>(mean_val, min_val_stat, max_val_stat).
     top10_chart u data view pollutant_col
       (out @ [Metric ''Average AQI'' mean_val, Metric ''Minimum AQI'' min_val_stat,
               Metric ''Maximum AQI'' max_val_stat]))"

text \<open>Lines 89 to 94: the first view, the title, the subheader and the table.\<close>

definition page_title :: string where
  "page_title = [CHR 0xF0, CHR 0x9F, CHR 0x8C, CHR 0x8D] @ '' Global Air Quality Explorer''"

definition apply_filters ::
  "ui \<Rightarrow> dataframe \<Rightarrow> string \<Rightarrow> string \<Rightarrow> int \<Rightarrow> int \<Rightarrow> cell list \<Rightarrow> widget list
     \<Rightarrow> widget list \<times> outcome" where
  "apply_filters u data pollutant_label pollutant_col min_val max_val countries out =
     attempt (filtered data pollutant_col min_val max_val countries) out (\<lambda>view.
     attempt (join_cells '', '' countries) (out @ [Title page_title]) (\<lambda>names.
     summary_metrics u data view pollutant_col
       (out @ [Title page_title, ShowingFor pollutant_label min_val max_val names,
               DataTable view])))"

text \<open>
  Lines 66 to 82: the pollutant select box, the range slider with the column's minimum and
  maximum as its bounds and default, and the country multiselect.
\<close>

definition sidebar_controls :: "ui \<Rightarrow> dataframe \<Rightarrow> widget list \<Rightarrow> widget list \<times> outcome" where
  "sidebar_controls u data out =
     attempt (selectbox u (map fst pollutant_dict)) out (\<lambda>pollutant_label.
     attempt (dict_getitem pollutant_dict pollutant_label) out (\<lambda>pollutant_col.
     attempt (getitem data pollutant_col) out (\<lambda>s.
     attempt (series_min s) out (\<lambda>lowest.
     attempt (py_int lowest) out (\<lambda>lo.
     attempt (series_max s) out (\<lambda>highest.
     attempt (py_int highest) out (\<lambda>hi.
     attempt (slider u lo hi (lo, hi)) out (\<lambda>(min_val, max_val).
     attempt (getitem data ''Country'') out (\<lambda>country_series.
     attempt (countries_multiselect u (unique country_series) default_countries) out
       (\<lambda>countries.
     apply_filters u data pollutant_label pollutant_col min_val max_val countries
       out))))))))))"

text \<open>
  Lines 38 to 56: the load, the check of the required columns, the sidebar header.
  \<^verbatim>\<open>missing = [col for col in required_cols if col not in data.columns]
if missing:
    st.error(f"Missing expected columns: {missing}")
    st.stop()\<close>
\<close>

definition missing_cols :: "dataframe \<Rightarrow> string list" where
  "missing_cols data = filter (\<lambda>col. col \<notin> set (columns data)) required_cols"

definition check_columns :: "ui \<Rightarrow> dataframe \<Rightarrow> widget list \<Rightarrow> widget list \<times> outcome" where
  "check_columns u data out =
     (let missing = missing_cols data in
      if missing \<noteq> []
      then (out @ [StError (''Missing expected columns: '' @ py_repr_list missing)], Stopped)
      else sidebar_controls u data
             (out @ [SidebarHeader ''Filters'', SidebarMarkdown ''#### How to Use This App'',
                     SidebarMarkdown
                       (''- Select a pollutant and AQI range  '' @ [CHR 0x0A] @
                        ''- Choose countries and cities  '' @ [CHR 0x0A] @
                        ''- Explore charts, tables, and the map'')]))"

definition script :: "ui \<Rightarrow> (string \<Rightarrow> exn + dataframe) \<Rightarrow> widget list \<times> outcome" where
  "script u read_csv =
     (case load_data read_csv ''air_quality_index.csv'' of
        (messages, Inl e) \<Rightarrow> (map StError messages, Raised e)
      | (messages, Inr data) \<Rightarrow> check_columns u data (map StError messages))"

text \<open>The components that lines 108 to 182 render, and the error of an unbound \<open>plt\<close>.\<close>

fun later_component :: "widget \<Rightarrow> bool" where
  "later_component (BarChart b) = True"
| "later_component (Histogram h) = True"
| "later_component (Subheader t) = True"
| "later_component (PivotTable p) = True"
| "later_component (LevelCodes l) = True"
| "later_component (CategoryCounts c) = True"
| "later_component (BubbleMap m) = True"
| "later_component (DownloadButton d) = True"
| "later_component (AqiColumns a) = True"
| "later_component w = False"

definition plt_undefined :: exn where
  "plt_undefined = NameError (''name '' @ py_repr ''plt'' @ '' is not defined'')"

text \<open>
  A run that stops early: it ends with an exception, after rendering, beyond what was
  shown before, none of the later components; and if a metric is among what it rendered,
  the exception is the \<open>NameError\<close> for \<open>plt\<close>.
\<close>

definition stops_early :: "widget list \<Rightarrow> widget list \<times> outcome \<Rightarrow> bool" where
  "stops_early out res =
     (\<exists>ws e. res = (out @ ws, Raised e) \<and>
        list_all (\<lambda>w. \<not> later_component w) ws \<and>
        ((\<exists>t c. Metric t c \<in> set ws) \<longrightarrow> e = plt_undefined))"

subsection \<open>Example data\<close>

text \<open>
  A small file system for the loader: one file with padded headers (blanks, a no-break
  space U+00A0, a tab), a row repeated after another row and rows without a coordinate, one
  file without the coordinate columns, and no other file.
\<close>

definition raw_csv :: dataframe where
  "raw_csv =
     \<lparr>columns = ['' City '', ''lat'', ''lng'',
                 CHR 0xC2 # CHR 0xA0 # ''AQI Value'' @ [CHR 0x09, CHR 0x20]],
      rows = [[Str ''A'', Num 1, Num 2, Num 50],
              [Str ''B'', NaN, Num 3, Num 60],
              [Str ''E'', Num 7, Num 8, Num 70],
              [Str ''A'', Num 1, Num 2, Num 50],
              [Str ''C'', Num 4, Num 5, Num 80],
              [Str ''D'', Num 6, NaN, Num 90]]\<rparr>"

definition no_geo_csv :: dataframe where
  "no_geo_csv = \<lparr>columns = [''City'', ''Country'', ''AQI Value''],
                  rows = [[Str ''A'', Str ''US'', Num 50]]\<rparr>"

definition disk :: "string \<Rightarrow> exn + dataframe" where
  "disk path =
     (if path = ''air_quality_index.csv'' then Inr raw_csv
      else if path = ''no_geo.csv'' then Inr no_geo_csv
      else Inl (PyException ''No such file or directory''))"

text \<open>
  Frames for the script: six cities, one for each of the default countries; the same
  header with no row; a frame without two of the pollutant columns; a frame with the
  coordinates and the five pollutant columns only; and a frame with equal values and a
  missing value in its pollutant column. \<open>disk_with df\<close> is a file system
  whose \<open>air_quality_index.csv\<close> parses to \<open>df\<close>.
\<close>

definition ten_columns :: "string list" where
  "ten_columns =
     [''City'', ''Country'', ''lat'', ''lng'', ''AQI Value'', ''CO AQI Value'',
      ''Ozone AQI Value'', ''NO2 AQI Value'', ''PM2.5 AQI Value'', ''AQI Category'']"

definition sample_csv :: dataframe where
  "sample_csv =
     \<lparr>columns = ten_columns,
      rows =
        [[Str ''Boston'', Str ''United States of America'', Num 42, Num (- 71),
          Num 50, Num 1, Num 30, Num 5, Num 50, Str ''Good''],
         [Str ''Beijing'', Str ''China'', Num 40, Num 116,
          Num 150, Num 3, Num 40, Num 20, Num 150, Str ''Unhealthy''],
         [Str ''Brasilia'', Str ''Brazil'', Num (- 16), Num (- 48),
          Num 80, Num 1, Num 20, Num 3, Num 80, Str ''Moderate''],
         [Str ''Rome'', Str ''Italy'', Num 42, Num 12,
          Num 60, Num 1, Num 35, Num 10, Num 60, Str ''Moderate''],
         [Str ''Moscow'', Str ''Russian Federation'', Num 56, Num 38,
          Num 70, Num 2, Num 25, Num 8, Num 70, Str ''Moderate''],
         [Str ''Paris'', Str ''France'', Num 49, Num 2,
          Num 55, Num 1, Num 30, Num 12, Num 55, Str ''Moderate'']]\<rparr>"

definition header_only_csv :: dataframe where
  "header_only_csv = \<lparr>columns = ten_columns, rows = []\<rparr>"

definition two_missing_csv :: dataframe where
  "two_missing_csv =
     \<lparr>columns = [''City'', ''Country'', ''lat'', ''lng'', ''AQI Value'', ''Ozone AQI Value'',
                 ''PM2.5 AQI Value'', ''AQI Category''],
      rows = [[Str ''Boston'', Str ''United States of America'', Num 42, Num (- 71),
               Num 50, Num 30, Num 50, Str ''Good'']]\<rparr>"

definition pollutants_only_csv :: dataframe where
  "pollutants_only_csv =
     \<lparr>columns = [''lat'', ''lng'', ''AQI Value'', ''CO AQI Value'', ''Ozone AQI Value'',
                 ''NO2 AQI Value'', ''PM2.5 AQI Value''],
      rows = [[Num 42, Num (- 71), Num 50, Num 1, Num 30, Num 5, Num 50],
              [Num 40, Num 116, Num 150, Num 3, Num 40, Num 20, Num 150]]\<rparr>"



definition ties_csv :: dataframe where
  "ties_csv =
     \<lparr>columns = [''City'', ''AQI Value''],
      rows = [[Str ''A'', Num 50], [Str ''B'', Num 80], [Str ''C'', NaN], [Str ''D'', Num 80],
              [Str ''E'', Num 50], [Str ''F'', Num 90]]\<rparr>"


text \<open>
  The three rows of the example of the specification (section 8), and its view for the
  range 60 to 200.
\<close>

definition spec_example_csv :: dataframe where
  "spec_example_csv =
     \<lparr>columns = [''City'', ''Country'', ''AQI Value''],
      rows = [[Str ''A'', Str ''US'', Num 50], [Str ''B'', Str ''US'', Num 150],
              [Str ''C'', Str ''FR'', Num 80]]\<rparr>"

definition spec_view_csv :: dataframe where
  "spec_view_csv =
     \<lparr>columns = [''City'', ''Country'', ''AQI Value''],
      rows = [[Str ''B'', Str ''US'', Num 150], [Str ''C'', Str ''FR'', Num 80]]\<rparr>"

definition disk_with :: "dataframe \<Rightarrow> string \<Rightarrow> exn + dataframe" where
  "disk_with df path =
     (if path = ''air_quality_index.csv'' then Inr df
      else Inl (PyException ''No such file or directory''))"

text \<open>
  A user who leaves every control at its default: the first pollutant, the full range, the
  six default countries (Streamlit refuses a default that is not among the options), no
  city, every category.
\<close>

definition default_ui :: ui where
  "default_ui =
     \<lparr>selectbox = (\<lambda>options. case options of
                                   [] \<Rightarrow> Inl (PyException ''no option'')
                                 | first # _ \<Rightarrow> Inr first),
      slider = (\<lambda>lo hi dflt. Inr dflt),
      countries_multiselect =
        (\<lambda>options dflt.
           if set dflt \<subseteq> set options then Inr dflt
           else Inl (PyException ''default value is not part of the options'')),
      cities_multiselect = (\<lambda>options. Inr []),
      categories_multiselect = (\<lambda>options dflt. Inr dflt)\<rparr>"

section \<open>Properties\<close>

subsection \<open>Floats\<close>

lemma bit_length_nonneg: "0 \<le> bit_length n"
proof (induction n rule: bit_length.induct)
  case (1 n)
  then show ?case by (cases "n \<le> 0") (simp_all add: bit_length.simps[of n])
qed

lemma bit_length_pos: "0 < n \<Longrightarrow> 1 \<le> bit_length n"
  using bit_length_nonneg[of "n div 2"] by (simp add: bit_length.simps[of n])

lemma bit_length_bounds:
  "0 < n \<Longrightarrow> 2 ^ nat (bit_length n - 1) \<le> n \<and> n < 2 ^ nat (bit_length n)"
proof (induction n rule: bit_length.induct)
  case (1 n)
  show ?case
  proof (cases "n = 1")
    case True
    then show ?thesis by (simp add: bit_length.simps[of 1] bit_length.simps[of 0])
  next
    case False
    with 1(2) have h: "0 < n div 2" by simp
    from 1(1)[OF _ h] 1(2)
    have ih: "2 ^ nat (bit_length (n div 2) - 1) \<le> n div 2" "n div 2 < 2 ^ nat (bit_length (n div 2))"
      by auto
    have bl: "bit_length n = 1 + bit_length (n div 2)"
      using 1(2) by (simp add: bit_length.simps[of n])
    have p: "1 \<le> bit_length (n div 2)" using bit_length_pos[OF h] .
    have e1: "nat (bit_length n - 1) = Suc (nat (bit_length (n div 2) - 1))"
      using p bl by simp
    have e2: "nat (bit_length n) = Suc (nat (bit_length (n div 2)))"
      using p bl by simp
    show ?thesis
      unfolding e1 e2 using ih by simp linarith
  qed
qed

lemma round_div_exact: "0 < b \<Longrightarrow> round_div (a * b) b = a"
  by (simp add: round_div_def)

lemma round_frac_int_exact:
  assumes "\<bar>n\<bar> \<le> 2 ^ 53"
  shows "round_frac n 1 = of_int n"
proof (cases "n = 0")
  case True
  then show ?thesis by (simp add: round_frac_def)
next
  case False
  then have pos: "0 < \<bar>n\<bar>" by simp
  let ?L = "bit_length \<bar>n\<bar>"
  from bit_length_bounds[OF pos]
  have lo: "2 ^ nat (?L - 1) \<le> \<bar>n\<bar>" and hi: "\<bar>n\<bar> < 2 ^ nat ?L" by auto
  have L1: "1 \<le> ?L" using bit_length_pos[OF pos] .
  have b1: "bit_length 1 = 1" by (simp add: bit_length.simps[of 1] bit_length.simps[of 0])
  have "(2::int) ^ nat (?L - 1) \<le> 2 ^ 53" using lo assms by linarith
  then have "nat (?L - 1) \<le> 53" by (rule power_le_imp_le_exp[rotated]) simp
  then have L54: "?L \<le> 54" by linarith
  let ?k = "?L - 1 - 52"
  have e: "round_frac n 1 =
      (if 0 \<le> ?k then of_int (round_div n (2 ^ nat ?k) * 2 ^ nat ?k)
       else of_int (round_div (n * 2 ^ nat (- ?k)) 1) / of_int (2 ^ nat (- ?k)))"
    using False L1 lo by (simp add: round_frac_def b1 Let_def max_def)
  show ?thesis
  proof (cases "0 \<le> ?k")
    case neg: False
    have "round_div (n * 2 ^ nat (- ?k)) 1 = n * 2 ^ nat (- ?k)"
      by (simp add: round_div_def)
    then show ?thesis using neg e by simp
  next
    case True
    then consider "?k = 0" | "?k = 1" using L54 by linarith
    then show ?thesis
    proof cases
      case 1
      then show ?thesis using e by (simp add: round_div_def)
    next
      case 2
      then have "?L = 54" by simp
      with lo have "2 ^ 53 \<le> \<bar>n\<bar>" by simp
      with assms have "\<bar>n\<bar> = 2 ^ 53" by simp
      then have "n = 2 ^ 53 \<or> n = - (2 ^ 53)" by linarith
      then show ?thesis using e 2 by (auto simp: round_div_def)
    qed
  qed
qed

lemma float64_of_int_rat: "\<bar>n\<bar> \<le> 2 ^ 53 \<Longrightarrow> float64 (of_int n) = of_int n"
  by (simp add: float64_def quotient_of_int round_frac_int_exact)

lemma float64_fraction:
  assumes "coprime a b" "0 < b"
  shows "float64 (of_int a / of_int b) = round_frac a b"
proof -
  have "quotient_of (Fract a b) = (a, b)"
    using assms by (simp add: quotient_of_Fract Rat.normalize_def Let_def)
  then show ?thesis
    by (simp add: float64_def Fract_of_int_quotient)
qed

lemma float_sum_exact_aux:
  assumes "\<forall>v \<in> set vs. v \<in> \<int>" "acc \<in> \<int>" "\<bar>acc\<bar> + (\<Sum>v\<leftarrow>vs. \<bar>v\<bar>) \<le> 2 ^ 53"
  shows "foldl (\<lambda>acc v. float64 (acc + v)) acc vs = acc + sum_list vs"
  using assms
proof (induction vs arbitrary: acc)
  case Nil
  then show ?case by simp
next
  case (Cons v vs)
  from Cons.prems obtain m k :: int where m: "acc = of_int m" and k: "v = of_int k"
    by (auto elim!: Ints_cases)
  have nn: "0 \<le> (\<Sum>v\<leftarrow>vs. \<bar>v\<bar>)"
    by (rule sum_list_nonneg) auto
  have b: "\<bar>acc + v\<bar> \<le> 2 ^ 53"
    using Cons.prems(3) nn abs_triangle_ineq[of acc v] by simp
  have "\<bar>m + k\<bar> \<le> 2 ^ 53"
  proof -
    have "(of_int \<bar>m + k\<bar> :: rat) \<le> of_int (2 ^ 53)" using b m k by simp
    then show ?thesis by (simp only: of_int_le_iff)
  qed
  then have fl: "float64 (acc + v) = acc + v"
    using float64_of_int_rat[of "m + k"] m k by simp
  have "\<bar>acc + v\<bar> + (\<Sum>v\<leftarrow>vs. \<bar>v\<bar>) \<le> 2 ^ 53"
    using Cons.prems(3) abs_triangle_ineq[of acc v] by simp
  moreover have "acc + v \<in> \<int>" using Cons.prems by simp
  ultimately have "foldl (\<lambda>acc v. float64 (acc + v)) (acc + v) vs = acc + v + sum_list vs"
    using Cons.IH[of "acc + v"] Cons.prems(1) by simp
  then show ?case by (simp add: fl)
qed

lemma float_sum_exact:
  assumes "\<forall>v \<in> set vs. v \<in> \<int>" "(\<Sum>v\<leftarrow>vs. \<bar>v\<bar>) \<le> 2 ^ 53"
  shows "float_sum vs = sum_list vs"
  using float_sum_exact_aux[OF assms(1), of 0] assms(2) by (simp add: float_sum_def)

lemmas float_eval = round_frac_def bit_length.simps round_div_def Let_def

lemma coprime_bezout:
  fixes a b :: int
  assumes "a * x + b * y = 1"
  shows "coprime a b"
proof (rule coprimeI)
  fix c assume "c dvd a" "c dvd b"
  then have "c dvd a * x + b * y" by simp
  with assms show "is_unit c" by simp
qed

lemma float64_of_int_exact: "\<bar>n\<bar> \<le> 2 ^ 53 \<Longrightarrow> float64_of_int n = Inr (of_int n)"
proof -
  assume a: "\<bar>n\<bar> \<le> 2 ^ 53"
  then have "(of_int \<bar>n\<bar> :: rat) \<le> of_int (2 ^ 53)" by (simp only: of_int_le_iff)
  then have "\<bar>of_int n :: rat\<bar> < 2 ^ 1024" by simp
  then show ?thesis
    using a by (simp add: float64_of_int_def round_frac_int_exact)
qed

subsection \<open>Stripping\<close>

lemma whitespace_nonempty: "w \<in> set whitespace \<Longrightarrow> w \<noteq> []"
  by (auto simp: whitespace_def)

lemma leading_space_0: "leading_space t = 0 \<longleftrightarrow> (\<forall>w \<in> set whitespace. take (length w) t \<noteq> w)"
  by (auto simp: leading_space_def find_None_iff find_Some_iff whitespace_nonempty
      split: option.splits)

lemma leading_space_Some:
  assumes "leading_space t \<noteq> 0"
  obtains w where "w \<in> set whitespace" "leading_space t = length w" "t = w @ drop (length w) t"
proof -
  from assms obtain w where f: "find (\<lambda>w. take (length w) t = w) whitespace = Some w"
    and l: "leading_space t = length w"
    by (auto simp: leading_space_def split: option.splits)
  from f have "w \<in> set whitespace" "take (length w) t = w"
    by (auto simp: find_Some_iff)
  then have "t = w @ drop (length w) t" by (metis append_take_drop_id)
  with \<open>w \<in> set whitespace\<close> l show ?thesis by (rule that)
qed

lemma trailing_space_0:
  "trailing_space t = 0 \<longleftrightarrow>
   (\<forall>w \<in> set whitespace. \<not> (length w \<le> length t \<and> drop (length t - length w) t = w))"
  by (auto simp: trailing_space_def find_None_iff find_Some_iff whitespace_nonempty
      split: option.splits)

lemma trailing_space_Some:
  assumes "trailing_space t \<noteq> 0"
  obtains w where "w \<in> set whitespace" "trailing_space t = length w"
    "t = take (length t - length w) t @ w"
proof -
  from assms obtain w where
    f: "find (\<lambda>w. length w \<le> length t \<and> drop (length t - length w) t = w) whitespace = Some w"
    and l: "trailing_space t = length w"
    by (auto simp: trailing_space_def split: option.splits)
  from f have "w \<in> set whitespace" "drop (length t - length w) t = w"
    by (auto simp: find_Some_iff)
  then have "t = take (length t - length w) t @ w" by (metis append_take_drop_id)
  with \<open>w \<in> set whitespace\<close> l show ?thesis by (rule that)
qed

lemma blank_append: "blank a \<Longrightarrow> blank b \<Longrightarrow> blank (a @ b)"
proof (induction rule: blank.induct)
  case blank_Nil
  then show ?case by simp
next
  case (blank_Cons w t)
  then have "blank (t @ b)" by simp
  with \<open>w \<in> set whitespace\<close> have "blank (w @ (t @ b))" by (rule blank.blank_Cons)
  then show ?case by simp
qed

lemma blank_single: "w \<in> set whitespace \<Longrightarrow> blank w"
  using blank_Cons[OF _ blank_Nil, of w] by simp

lemma lstrip_split: "\<exists>pre. t = pre @ lstrip t \<and> blank pre"
proof (induction t rule: lstrip.induct)
  case (1 t)
  show ?case
  proof (cases "leading_space t = 0")
    case True
    then show ?thesis by (auto simp: lstrip.simps[of t] intro: blank_Nil)
  next
    case False
    then obtain w where w: "w \<in> set whitespace" "leading_space t = length w"
      "t = w @ drop (length w) t" by (rule leading_space_Some)
    from 1[OF False] obtain pre where
      pre: "drop (leading_space t) t = pre @ lstrip (drop (leading_space t) t)" "blank pre"
      by blast
    have ls: "lstrip t = lstrip (drop (leading_space t) t)"
      using False by (simp add: lstrip.simps[of t])
    have "t = (w @ pre) @ lstrip t"
      using w(3) pre(1) ls w(2) by (metis append_assoc)
    moreover have "blank (w @ pre)" using w(1) pre(2) by (rule blank_Cons)
    ultimately show ?thesis by blast
  qed
qed

lemma lstrip_no_leading: "leading_space (lstrip t) = 0"
proof (induction t rule: lstrip.induct)
  case (1 t)
  then show ?case by (cases "leading_space t = 0") (simp_all add: lstrip.simps[of t])
qed

lemma rstrip_split: "\<exists>post. t = rstrip t @ post \<and> blank post"
proof (induction t rule: rstrip.induct)
  case (1 t)
  show ?case
  proof (cases "trailing_space t = 0")
    case True
    then show ?thesis by (auto simp: rstrip.simps[of t] intro: blank_Nil)
  next
    case False
    then obtain w where w: "w \<in> set whitespace" "trailing_space t = length w"
      "t = take (length t - length w) t @ w" by (rule trailing_space_Some)
    from 1[OF False] obtain post where
      post: "take (length t - trailing_space t) t =
               rstrip (take (length t - trailing_space t) t) @ post" "blank post"
      by blast
    have rs: "rstrip t = rstrip (take (length t - trailing_space t) t)"
      using False by (simp add: rstrip.simps[of t])
    have "t = rstrip t @ (post @ w)"
      using w(3) post(1) rs w(2) by (metis append_assoc)
    moreover have "blank (post @ w)"
      using post(2) blank_single[OF w(1)] by (rule blank_append)
    ultimately show ?thesis by blast
  qed
qed

lemma rstrip_no_trailing: "trailing_space (rstrip t) = 0"
proof (induction t rule: rstrip.induct)
  case (1 t)
  then show ?case by (cases "trailing_space t = 0") (simp_all add: rstrip.simps[of t])
qed

lemma leading_space_prefix:
  assumes "leading_space (a @ b) = 0"
  shows "leading_space a = 0"
proof -
  have "take (length w) a \<noteq> w" if "w \<in> set whitespace" for w
  proof
    assume e: "take (length w) a = w"
    then have "length w \<le> length a" by (metis length_take min.absorb_iff2 min.cobounded1 min.commute)
    with e have "take (length w) (a @ b) = w" by simp
    with assms that show False by (simp add: leading_space_0)
  qed
  then show ?thesis by (simp add: leading_space_0)
qed

lemma strip_split:
  "\<exists>pre post. t = pre @ strip t @ post \<and> blank pre \<and> blank post \<and>
     leading_space (strip t) = 0 \<and> trailing_space (strip t) = 0"
proof -
  from lstrip_split[of t] obtain pre where pre: "t = pre @ lstrip t" "blank pre" by blast
  from rstrip_split[of "lstrip t"] obtain post where
    post: "lstrip t = rstrip (lstrip t) @ post" "blank post" by blast
  have "leading_space (rstrip (lstrip t) @ post) = 0"
    using lstrip_no_leading[of t] post(1) by simp
  then have "leading_space (strip t) = 0"
    unfolding strip_def by (rule leading_space_prefix)
  moreover have "t = pre @ strip t @ post"
    using pre(1) post(1) by (simp add: strip_def)
  ultimately show ?thesis
    using pre(2) post(2) rstrip_no_trailing[of "lstrip t"] by (auto simp: strip_def)
qed


subsection \<open>Column access\<close>

lemma index_of_None_iff: "index_of n cs = None \<longleftrightarrow> n \<notin> set cs"
  by (induction cs) auto

lemma index_of_Some_lt: "index_of n cs = Some i \<Longrightarrow> i < length cs \<and> cs ! i = n"
  by (induction cs arbitrary: i) (auto split: if_splits)

lemma index_of_Some_iff: "(\<exists>i. index_of n cs = Some i) \<longleftrightarrow> n \<in> set cs"
  using index_of_None_iff[of n cs] by (cases "index_of n cs") auto

lemma getitem_Inr_iff: "(\<exists>s. getitem df name = Inr s) \<longleftrightarrow> name \<in> set (columns df)"
  using index_of_Some_iff[of name "columns df"]
  by (cases "index_of name (columns df)") (auto simp: getitem_def)

lemma filter_zip_mask:
  "map fst (filter snd (zip xs (map P xs))) = filter P xs"
  by (induction xs) auto

lemma mask_and_map:
  "mask_and (map P xs) (map Q xs) = map (\<lambda>x. P x \<and> Q x) xs"
  by (induction xs) (auto simp: mask_and_def)

lemma in_range_cell:
  "index_of p cols = Some i \<Longrightarrow>
   in_range cols p low high r = (cell_ge low (cell_at r i) \<and> cell_le high (cell_at r i))"
  by (cases "cell_at r i") (auto simp: in_range_def row_get_def)


lemma filter_data_rows:
  assumes "getitem df p = Inr s" and "\<not> list_ex is_str s"
    and "float64_of_int low = Inr l" and "float64_of_int high = Inr h"
  shows "filter_data df p low high =
           Inr (df\<lparr>rows := filter (in_range (columns df) p l h) (rows df)\<rparr>)"
proof -
  from assms(1) obtain i where i: "index_of p (columns df) = Some i"
    and s: "s = map (\<lambda>r. cell_at r i) (rows df)"
    by (auto simp: getitem_def split: option.splits)
  have mask: "mask_and (map (cell_ge l) s) (map (cell_le h) s) =
        map (in_range (columns df) p l h) (rows df)"
    by (simp add: s mask_and_map in_range_cell[OF i] comp_def)
  have "filter_data df p low high =
        Inr (bool_index df (map (in_range (columns df) p l h) (rows df)))"
    using assms by (simp add: filter_data_def series_ge_def series_le_def mask)
  then show ?thesis
    by (simp add: bool_index_def filter_zip_mask)
qed

lemma filter_data_exact:
  assumes "getitem df p = Inr s" and "\<not> list_ex is_str s"
    and "\<bar>low\<bar> \<le> 2 ^ 53" and "\<bar>high\<bar> \<le> 2 ^ 53"
  shows "filter_data df p low high =
           Inr (df\<lparr>rows := filter (in_range (columns df) p (of_int low) (of_int high))
                               (rows df)\<rparr>)"
  by (rule filter_data_rows[OF assms(1,2) float64_of_int_exact[OF assms(3)]
        float64_of_int_exact[OF assms(4)]])

lemma filter_data_KeyError:
  "p \<notin> set (columns df) \<Longrightarrow> filter_data df p low high = Inl (KeyError (py_repr p))"
  by (simp add: filter_data_def getitem_def index_of_None_iff[symmetric])

subsection \<open>The loader\<close>

lemma drop_dups_by_set:
  "f ` set (drop_dups_by f seen xs) = f ` set xs - set seen"
  by (induction xs arbitrary: seen) auto

lemma drop_dups_by_distinct:
  "distinct (map f (drop_dups_by f seen xs))"
proof (induction xs arbitrary: seen)
  case Nil
  show ?case by simp
next
  case (Cons x xs)
  have "f x \<notin> f ` set (drop_dups_by f (f x # seen) xs)"
    by (simp add: drop_dups_by_set)
  with Cons show ?case by simp
qed

lemma drop_dups_by_subseq: "subseq (drop_dups_by f seen xs) xs"
  by (induction xs arbitrary: seen) auto

lemma row_get_row_cells:
  "row_get cols r l = row_get cols (row_cells (length cols) r) l"
proof (cases "index_of l cols")
  case None
  then show ?thesis by (simp add: row_get_def)
next
  case (Some i)
  then have "i < length cols" using index_of_Some_lt by blast
  then show ?thesis using Some
    by (simp add: row_get_def row_cells_def cell_at_def)
qed

lemma row_get_cong_cells:
  "row_cells (length cols) r = row_cells (length cols) r' \<Longrightarrow> row_get cols r l = row_get cols r' l"
  using row_get_row_cells[of cols r l] row_get_row_cells[of cols r' l] by simp

lemma dropna_geo:
  assumes "''lat'' \<in> set (columns df)" "''lng'' \<in> set (columns df)"
  shows "dropna df [''lat'', ''lng''] =
    Inr (df\<lparr>rows := filter (\<lambda>r. row_get (columns df) r ''lat'' \<noteq> Inr NaN \<and>
                               row_get (columns df) r ''lng'' \<noteq> Inr NaN) (rows df)\<rparr>)"
  using assms by (simp add: dropna_def)

lemma drop_dups_by_index:
  "drop_dups_by f seen xs =
     map (nth xs)
       (filter (\<lambda>i. f (xs ! i) \<notin> set seen \<union> f ` set (take i xs)) [0..<length xs])"
proof -
  define P where "P = (\<lambda>seen xs i. f (xs ! i) \<notin> set seen \<union> f ` set (take i xs))"
  have "drop_dups_by f seen xs = map (nth xs) (filter (P seen xs) [0..<length xs])"
  proof (induction xs arbitrary: seen)
    case Nil
    show ?case by simp
  next
    case (Cons x xs)
    have upt: "[0..<length (x # xs)] = 0 # map Suc [0..<length xs]"
      by (simp add: upt_conv_Cons map_Suc_upt del: upt_Suc)
    have P0: "P seen (x # xs) 0 = (f x \<notin> set seen)"
      by (simp add: P_def)
    have PS: "P seen (x # xs) (Suc i) = P (if f x \<in> set seen then seen else f x # seen) xs i"
      for i by (auto simp: P_def)
    have "map (nth (x # xs)) (filter (P seen (x # xs)) [0..<length (x # xs)]) =
        (if f x \<in> set seen then [] else [x]) @
        map (nth xs)
          (filter (P (if f x \<in> set seen then seen else f x # seen) xs) [0..<length xs])"
      unfolding upt by (simp add: filter_map comp_def P0 PS)
    also have "\<dots> = drop_dups_by f seen (x # xs)"
      using Cons.IH[of seen] Cons.IH[of "f x # seen"] by simp
    finally show ?case by simp
  qed
  then show ?thesis by (simp add: P_def)
qed

lemma keep_first_index:
  "filter P (drop_dups_by f [] xs) =
     map (nth xs) (filter (\<lambda>i. P (xs ! i) \<and> f (xs ! i) \<notin> f ` set (take i xs)) [0..<length xs])"
  by (simp add: drop_dups_by_index filter_map comp_def conj_commute)

lemma leading_space_prefix_iff:
  "leading_space t = 0 \<longleftrightarrow> (\<forall>w \<in> set whitespace. \<not> prefix w t)"
proof -
  have "(take (length w) t = w) = prefix w t" for w
    by (metis append_take_drop_id prefix_def append_eq_conv_conj)
  then show ?thesis by (simp add: leading_space_0)
qed

lemma trailing_space_suffix_iff:
  "trailing_space t = 0 \<longleftrightarrow> (\<forall>w \<in> set whitespace. \<not> suffix w t)"
proof -
  have "(length w \<le> length t \<and> drop (length t - length w) t = w) = suffix w t" for w
  proof
    assume "length w \<le> length t \<and> drop (length t - length w) t = w"
    then show "suffix w t" by (metis suffix_drop)
  next
    assume "suffix w t"
    then obtain zs where "t = zs @ w" by (auto simp: suffix_def)
    then show "length w \<le> length t \<and> drop (length t - length w) t = w" by simp
  qed
  then show ?thesis by (simp add: trailing_space_0)
qed

lemma strip_trimmed:
  "\<exists>pre post. t = pre @ strip t @ post \<and> blank pre \<and> blank post \<and>
     (\<forall>w \<in> set whitespace. \<not> prefix w (strip t) \<and> \<not> suffix w (strip t))"
  using strip_split[of t] leading_space_prefix_iff[of "strip t"]
    trailing_space_suffix_iff[of "strip t"]
  by blast

lemma load_data_parsed:
  assumes "read_csv path = Inr df" "''lat'' \<in> set (columns df)" "''lng'' \<in> set (columns df)"
  shows "load_data read_csv path =
     ([], Inr \<lparr>columns = map strip (columns df),
               rows = filter (\<lambda>r. row_get (columns df) r ''lat'' \<noteq> Inr NaN \<and>
                                   row_get (columns df) r ''lng'' \<noteq> Inr NaN)
                        (drop_dups_by (row_cells (length (columns df))) [] (rows df))\<rparr>)"
proof -
  have c: "columns (drop_duplicates df) = columns df"
    and r: "rows (drop_duplicates df) =
              drop_dups_by (row_cells (length (columns df))) [] (rows df)"
    by (simp_all add: drop_duplicates_def)
  have "dropna (drop_duplicates df) [''lat'', ''lng''] =
     Inr ((drop_duplicates df)\<lparr>rows :=
            filter (\<lambda>r. row_get (columns df) r ''lat'' \<noteq> Inr NaN \<and>
                        row_get (columns df) r ''lng'' \<noteq> Inr NaN)
              (drop_dups_by (row_cells (length (columns df))) [] (rows df))\<rparr>)"
    using dropna_geo[of "drop_duplicates df"] assms(2,3) by (simp only: c r)
  then show ?thesis
    using assms(1) by (simp add: load_data_def c)
qed

text \<open>
  C5, as the code has it. When \<open>read_csv\<close> raises, \<open>load_data\<close> shows the message
  \<open>Error loading data: ...\<close> and returns the empty frame. When \<open>read_csv\<close> returns a
  frame whose labels, as parsed, include \<open>lat\<close> and \<open>lng\<close>, \<open>load_data\<close> returns a
  frame and shows nothing. Each of its labels is the parsed label without the whitespace
  around it: the parsed label is whitespace, the new label, whitespace, and the new label
  neither begins nor ends with a whitespace character. Its rows are exactly the parsed rows
  that have both coordinates and whose cells no earlier parsed row has, in the parsed
  order: of equal rows the first one stays. Hence they are rows of the parsed frame in
  their order, no two of them have the same cells, none lacks a latitude or a longitude,
  and every parsed row with both coordinates has its cells in the result.
\<close>

theorem load_data_cleans_or_reports:
  "(\<forall>e. read_csv path = Inl e \<longrightarrow>
      load_data read_csv path = ([''Error loading data: '' @ str_exn e], Inr empty_frame)) \<and>
   (\<forall>df. read_csv path = Inr df \<and> ''lat'' \<in> set (columns df) \<and> ''lng'' \<in> set (columns df) \<longrightarrow>
      (\<exists>out. load_data read_csv path = ([], Inr out) \<and>
         columns out = map strip (columns df) \<and>
         list_all2
           (\<lambda>h h'. \<exists>pre post. h = pre @ h' @ post \<and> blank pre \<and> blank post \<and>
                      (\<forall>w \<in> set whitespace. \<not> prefix w h' \<and> \<not> suffix w h'))
           (columns df) (columns out) \<and>
         rows out =
           map (nth (rows df))
             (filter (\<lambda>i. (row_get (columns df) (rows df ! i) ''lat'' \<noteq> Inr NaN \<and>
                            row_get (columns df) (rows df ! i) ''lng'' \<noteq> Inr NaN) \<and>
                          row_cells (length (columns df)) (rows df ! i) \<notin>
                            row_cells (length (columns df)) ` set (take i (rows df)))
                [0..<length (rows df)]) \<and>
         subseq (rows out) (rows df) \<and>
         distinct (map (row_cells (length (columns df))) (rows out)) \<and>
         (\<forall>r \<in> set (rows out).
            row_get (columns df) r ''lat'' \<noteq> Inr NaN \<and>
            row_get (columns df) r ''lng'' \<noteq> Inr NaN) \<and>
         (\<forall>r \<in> set (rows df).
            row_get (columns df) r ''lat'' \<noteq> Inr NaN \<and>
            row_get (columns df) r ''lng'' \<noteq> Inr NaN \<longrightarrow>
            (\<exists>r' \<in> set (rows out).
               row_cells (length (columns df)) r' = row_cells (length (columns df)) r))))"
proof (intro conjI allI impI)
  fix e assume "read_csv path = Inl e"
  then show "load_data read_csv path = ([''Error loading data: '' @ str_exn e], Inr empty_frame)"
    by (simp add: load_data_def)
next
  fix df
  assume a: "read_csv path = Inr df \<and> ''lat'' \<in> set (columns df) \<and> ''lng'' \<in> set (columns df)"
  let ?n = "length (columns df)"
  let ?geo = "\<lambda>r. row_get (columns df) r ''lat'' \<noteq> Inr NaN \<and>
                   row_get (columns df) r ''lng'' \<noteq> Inr NaN"
  let ?dd = "drop_dups_by (row_cells ?n) [] (rows df)"
  let ?out = "\<lparr>columns = map strip (columns df), rows = filter ?geo ?dd\<rparr>"
  let ?trim = "\<lambda>h h'. \<exists>pre post. h = pre @ h' @ post \<and> blank pre \<and> blank post \<and>
                      (\<forall>w \<in> set whitespace. \<not> prefix w h' \<and> \<not> suffix w h')"
  have ld: "load_data read_csv path = ([], Inr ?out)"
    using a load_data_parsed[of read_csv path df] by simp
  have trim: "list_all2 ?trim (columns df) (columns ?out)"
    using strip_trimmed by (simp add: list_all2_map2 list_all2_same)
  have first: "rows ?out =
      map (nth (rows df))
        (filter (\<lambda>i. ?geo (rows df ! i) \<and>
                     row_cells ?n (rows df ! i) \<notin> row_cells ?n ` set (take i (rows df)))
           [0..<length (rows df)])"
    by (simp add: keep_first_index)
  have sub: "subseq (rows ?out) (rows df)"
  proof -
    have "subseq (filter ?geo ?dd) ?dd" by (rule subseq_filter_left)
    also have "subseq ?dd (rows df)" by (rule drop_dups_by_subseq)
    finally show ?thesis by simp
  qed
  have dist: "distinct (map (row_cells ?n) (rows ?out))"
    using drop_dups_by_distinct[of "row_cells ?n" "[]" "rows df"]
    by (simp add: distinct_map_filter)
  have geo: "\<forall>r \<in> set (rows ?out). ?geo r" by simp
  have kept: "\<forall>r \<in> set (rows df). ?geo r \<longrightarrow>
      (\<exists>r' \<in> set (rows ?out). row_cells ?n r' = row_cells ?n r)"
  proof (intro ballI impI)
    fix r assume r: "r \<in> set (rows df)" and g: "?geo r"
    have "row_cells ?n r \<in> row_cells ?n ` set ?dd"
      using r by (simp add: drop_dups_by_set)
    then obtain r' where r': "r' \<in> set ?dd" and eq: "row_cells ?n r' = row_cells ?n r"
      by auto
    have "?geo r'"
      using g row_get_cong_cells[OF eq] by simp
    with r' eq show "\<exists>r' \<in> set (rows ?out). row_cells ?n r' = row_cells ?n r"
      by auto
  qed
  show "\<exists>out. load_data read_csv path = ([], Inr out) \<and>
         columns out = map strip (columns df) \<and>
         list_all2 ?trim (columns df) (columns out) \<and>
         rows out =
           map (nth (rows df))
             (filter (\<lambda>i. ?geo (rows df ! i) \<and>
                          row_cells (length (columns df)) (rows df ! i) \<notin>
                            row_cells (length (columns df)) ` set (take i (rows df)))
                [0..<length (rows df)]) \<and>
         subseq (rows out) (rows df) \<and>
         distinct (map (row_cells (length (columns df))) (rows out)) \<and>
         (\<forall>r \<in> set (rows out). ?geo r) \<and>
         (\<forall>r \<in> set (rows df). ?geo r \<longrightarrow>
            (\<exists>r' \<in> set (rows out).
               row_cells (length (columns df)) r' = row_cells (length (columns df)) r))"
    apply (rule exI[of _ ?out])
    apply (intro conjI)
    apply (rule ld)
    apply simp
    apply (rule trim)
    apply (rule first)
    apply (rule sub)
    apply (rule dist)
    apply (rule geo)
    apply (rule kept)
    done
qed

lemma raw_header_nbsp:
  "strip (CHR 0xC2 # CHR 0xA0 # ''AQI Value'' @ [CHR 0x09, CHR 0x20]) = ''AQI Value''"
  by code_simp

lemma raw_headers:
  "strip '' City '' = ''City''" "strip ''lat'' = ''lat''" "strip ''lng'' = ''lng''"
  by code_simp+

lemma raw_rows:
  "map (nth (rows raw_csv))
     (filter (\<lambda>i. (row_get (columns raw_csv) (rows raw_csv ! i) ''lat'' \<noteq> Inr NaN \<and>
                    row_get (columns raw_csv) (rows raw_csv ! i) ''lng'' \<noteq> Inr NaN) \<and>
                  row_cells (length (columns raw_csv)) (rows raw_csv ! i) \<notin>
                    row_cells (length (columns raw_csv)) ` set (take i (rows raw_csv)))
        [0..<length (rows raw_csv)]) =
   [[Str ''A'', Num 1, Num 2, Num 50], [Str ''E'', Num 7, Num 8, Num 70],
    [Str ''C'', Num 4, Num 5, Num 80]]"
  by (simp add: raw_csv_def row_get_def row_cells_def cell_at_def upt_rec)

text \<open>
  A parsed file without the columns \<open>lat\<close> and \<open>lng\<close>: \<open>dropna\<close> raises
  \<open>KeyError\<close> outside the \<open>try\<close>, so \<open>load_data\<close> returns nothing.
\<close>

theorem load_data_raises_counterexample:
  "load_data disk ''no_geo.csv'' = ([], Inl (KeyError (py_repr_list [''lat'', ''lng''])))"
  by (simp add: disk_def no_geo_csv_def load_data_def drop_duplicates_def dropna_def)

theorem load_data_cleans_or_reports_witness:
  "disk ''air_quality_index.csv'' = Inr raw_csv \<and>
   ''lat'' \<in> set (columns raw_csv) \<and> ''lng'' \<in> set (columns raw_csv) \<and>
   load_data disk ''air_quality_index.csv'' =
     ([], Inr \<lparr>columns = [''City'', ''lat'', ''lng'', ''AQI Value''],
               rows = [[Str ''A'', Num 1, Num 2, Num 50], [Str ''E'', Num 7, Num 8, Num 70],
                       [Str ''C'', Num 4, Num 5, Num 80]]\<rparr>) \<and>
   disk ''elsewhere.csv'' = Inl (PyException ''No such file or directory'') \<and>
   load_data disk ''elsewhere.csv'' =
     ([''Error loading data: No such file or directory''], Inr empty_frame)"
proof -
  have p: "disk ''air_quality_index.csv'' = Inr raw_csv"
    by (simp add: disk_def)
  have g: "''lat'' \<in> set (columns raw_csv)" "''lng'' \<in> set (columns raw_csv)"
    by (simp_all add: raw_csv_def)
  have s: "map strip (columns raw_csv) = [''City'', ''lat'', ''lng'', ''AQI Value'']"
    by (simp add: raw_csv_def raw_headers raw_header_nbsp[simplified])
  have q: "disk ''elsewhere.csv'' = Inl (PyException ''No such file or directory'')"
    by (simp add: disk_def)
  from load_data_cleans_or_reports[of disk "''air_quality_index.csv''"] p g
  obtain out where o: "load_data disk ''air_quality_index.csv'' = ([], Inr out)"
    and c: "columns out = map strip (columns raw_csv)"
    and r: "rows out =
      map (nth (rows raw_csv))
        (filter (\<lambda>i. (row_get (columns raw_csv) (rows raw_csv ! i) ''lat'' \<noteq> Inr NaN \<and>
                       row_get (columns raw_csv) (rows raw_csv ! i) ''lng'' \<noteq> Inr NaN) \<and>
                     row_cells (length (columns raw_csv)) (rows raw_csv ! i) \<notin>
                       row_cells (length (columns raw_csv)) ` set (take i (rows raw_csv)))
           [0..<length (rows raw_csv)])"
    by blast
  have "out = \<lparr>columns = [''City'', ''lat'', ''lng'', ''AQI Value''],
               rows = [[Str ''A'', Num 1, Num 2, Num 50], [Str ''E'', Num 7, Num 8, Num 70],
                       [Str ''C'', Num 4, Num 5, Num 80]]\<rparr>"
    using c r unfolding s raw_rows by simp
  moreover from load_data_cleans_or_reports[of disk "''elsewhere.csv''"] q
  have "load_data disk ''elsewhere.csv'' =
     ([''Error loading data: '' @ str_exn (PyException ''No such file or directory'')],
      Inr empty_frame)"
    by blast
  ultimately show ?thesis
    using p g q o by simp
qed

subsection \<open>The run of the script\<close>

lemma lookup_plt: "lookup_name ''plt'' = Inl plt_undefined"
  by (simp add: lookup_name_def imported_names_def assigned_names_def plt_undefined_def)

lemma get_stats_nlargest:
  assumes "get_stats df col = Inr st"
  shows "\<exists>t. nlargest n col df = Inr t"
proof -
  from assms obtain i where i: "index_of col (columns df) = Some i"
    by (auto simp: get_stats_def getitem_def split: option.splits)
  from assms i have "\<not> list_ex is_str (map (\<lambda>r. cell_at r i) (rows df))"
    by (auto simp: get_stats_def getitem_def series_mean_def split: if_splits)
  then have "\<not> list_ex (\<lambda>r. is_str (cell_at r i)) (rows df)"
    by (simp add: list_ex_iff)
  with i show ?thesis by (simp add: nlargest_def)
qed

lemma top10_chart_raises:
  assumes "get_stats view col = Inr st"
  shows "top10_chart u data view col out = (out, Raised plt_undefined)"
  using get_stats_nlargest[OF assms, of 10]
  by (auto simp: top10_chart_def attempt_def lookup_plt)

lemma summary_metrics_outcome:
  assumes "summary_metrics u data view col out = (out', oc)"
  shows "(\<exists>e. oc = Raised e \<and> out' = out) \<or>
         (\<exists>m1 m2 m3. out' = out @ [Metric ''Average AQI'' m1, Metric ''Minimum AQI'' m2,
                                     Metric ''Maximum AQI'' m3] \<and> oc = Raised plt_undefined)"
proof (cases "get_stats view col")
  case (Inl e)
  with assms show ?thesis by (auto simp: summary_metrics_def attempt_def)
next
  case (Inr st)
  obtain m1 m2 m3 where st: "st = (m1, m2, m3)" by (cases st) auto
  from assms Inr st show ?thesis
    by (auto simp: summary_metrics_def attempt_def top10_chart_raises[OF Inr])
qed

lemma apply_filters_outcome:
  "\<exists>ws e. apply_filters u data l col a b cs out = (out @ ws, Raised e) \<and>
      list_all (\<lambda>w. \<not> later_component w) ws \<and>
      ((\<exists>t c. Metric t c \<in> set ws) \<longrightarrow> e = plt_undefined)"
proof (cases "filtered data col a b cs")
  case (Inl e)
  then show ?thesis by (auto simp: apply_filters_def attempt_def intro!: exI[of _ "[]"])
next
  case view: (Inr view)
  show ?thesis
  proof (cases "join_cells '', '' cs")
    case (Inl e)
    with view show ?thesis
      by (auto simp: apply_filters_def attempt_def intro!: exI[of _ "[Title page_title]"])
  next
    case (Inr names)
    let ?out2 = "out @ [Title page_title, ShowingFor l a b names, DataTable view]"
    obtain out' oc where r: "summary_metrics u data view col ?out2 = (out', oc)"
      by (cases "summary_metrics u data view col ?out2") auto
    from summary_metrics_outcome[OF r] show ?thesis
    proof
      assume "\<exists>e. oc = Raised e \<and> out' = ?out2"
      then obtain e where "oc = Raised e" "out' = ?out2" by blast
      with r view Inr show ?thesis
        by (auto simp: apply_filters_def attempt_def
            intro!: exI[of _ "[Title page_title, ShowingFor l a b names, DataTable view]"])
    next
      assume "\<exists>m1 m2 m3. out' = ?out2 @ [Metric ''Average AQI'' m1, Metric ''Minimum AQI'' m2,
                                     Metric ''Maximum AQI'' m3] \<and> oc = Raised plt_undefined"
      then obtain m1 m2 m3 where "out' = ?out2 @ [Metric ''Average AQI'' m1, Metric ''Minimum AQI'' m2,
                                     Metric ''Maximum AQI'' m3]" "oc = Raised plt_undefined" by blast
      with r view Inr show ?thesis
        by (auto simp: apply_filters_def attempt_def
            intro!: exI[of _ "[Title page_title, ShowingFor l a b names, DataTable view,
               Metric ''Average AQI'' m1, Metric ''Minimum AQI'' m2, Metric ''Maximum AQI'' m3]"])
    qed
  qed
qed

lemma stops_early_attempt:
  assumes "\<And>x. m = Inr x \<Longrightarrow> stops_early out (k x)"
  shows "stops_early out (attempt m out k)"
proof (cases m)
  case (Inl e)
  then show ?thesis
    by (auto simp: stops_early_def attempt_def intro!: exI[of _ "[]"])
next
  case (Inr x)
  with assms show ?thesis by (simp add: attempt_def)
qed

lemma sidebar_controls_outcome: "stops_early out (sidebar_controls u data out)"
  unfolding sidebar_controls_def
  apply (intro stops_early_attempt)
  apply (simp split: prod.splits)
  apply (intro allI impI stops_early_attempt)
  apply (simp add: stops_early_def apply_filters_outcome)
  done

lemma check_columns_outcome:
  assumes "list_all (\<lambda>w. \<not> later_component w) out" "\<forall>t c. Metric t c \<notin> set out"
  shows "snd (check_columns u data out) \<noteq> Finished \<and>
         list_all (\<lambda>w. \<not> later_component w) (fst (check_columns u data out)) \<and>
         ((\<exists>t c. Metric t c \<in> set (fst (check_columns u data out))) \<longrightarrow>
            snd (check_columns u data out) = Raised plt_undefined)"
proof (cases "missing_cols data = []")
  case False
  with assms show ?thesis by (auto simp: check_columns_def Let_def)
next
  case True
  let ?out = "out @ [SidebarHeader ''Filters'', SidebarMarkdown ''#### How to Use This App'',
                     SidebarMarkdown
                       (''- Select a pollutant and AQI range  '' @ [CHR 0x0A] @
                        ''- Choose countries and cities  '' @ [CHR 0x0A] @
                        ''- Explore charts, tables, and the map'')]"
  have cc: "check_columns u data out = sidebar_controls u data ?out"
    using True by (simp add: check_columns_def)
  from sidebar_controls_outcome[of ?out u data]
  obtain ws e where r: "sidebar_controls u data ?out = (?out @ ws, Raised e)"
    and l: "list_all (\<lambda>w. \<not> later_component w) ws"
    and m: "(\<exists>t c. Metric t c \<in> set ws) \<longrightarrow> e = plt_undefined"
    unfolding stops_early_def by blast
  show ?thesis
    unfolding cc r using assms l m by auto
qed

text \<open>Two runs, evaluated: a file with a header and no row, and the six-city file.\<close>

lemma ten_columns_stripped: "map strip ten_columns = ten_columns"
proof -
  have "strip ''City'' = ''City''" "strip ''Country'' = ''Country''" "strip ''lat'' = ''lat''"
    "strip ''lng'' = ''lng''" "strip ''AQI Value'' = ''AQI Value''"
    "strip ''CO AQI Value'' = ''CO AQI Value''" "strip ''Ozone AQI Value'' = ''Ozone AQI Value''"
    "strip ''NO2 AQI Value'' = ''NO2 AQI Value''" "strip ''PM2.5 AQI Value'' = ''PM2.5 AQI Value''"
    "strip ''AQI Category'' = ''AQI Category''"
    by code_simp+
  then show ?thesis by (simp add: ten_columns_def)
qed

lemma load_header_only:
  "load_data (disk_with header_only_csv) ''air_quality_index.csv'' = ([], Inr header_only_csv)"
proof -
  have "load_data (disk_with header_only_csv) ''air_quality_index.csv'' =
      ([], Inr \<lparr>columns = map strip ten_columns, rows = []\<rparr>)"
    using load_data_parsed[of "disk_with header_only_csv" "''air_quality_index.csv''"
        header_only_csv]
    by (simp add: disk_with_def header_only_csv_def ten_columns_def)
  then show ?thesis by (simp add: ten_columns_stripped header_only_csv_def)
qed

lemma header_only_run:
  "script default_ui (disk_with header_only_csv) =
     ([SidebarHeader ''Filters'', SidebarMarkdown ''#### How to Use This App'',
       SidebarMarkdown
         (''- Select a pollutant and AQI range  '' @ [CHR 0x0A] @
          ''- Choose countries and cities  '' @ [CHR 0x0A] @
          ''- Explore charts, tables, and the map'')],
      Raised (ValueError ''cannot convert float NaN to integer''))"
  unfolding script_def load_header_only
  by (simp add: check_columns_def missing_cols_def required_cols_def header_only_csv_def
      ten_columns_def sidebar_controls_def attempt_def default_ui_def pollutant_dict_def
      dict_getitem_def getitem_def series_min_def)

lemma sample_rows:
  "filter (\<lambda>r. row_get ten_columns r ''lat'' \<noteq> Inr NaN \<and> row_get ten_columns r ''lng'' \<noteq> Inr NaN)
     (drop_dups_by (row_cells (length ten_columns)) [] (rows sample_csv)) = rows sample_csv"
  by (simp add: sample_csv_def ten_columns_def row_get_def row_cells_def cell_at_def upt_rec)

lemma load_sample:
  "load_data (disk_with sample_csv) ''air_quality_index.csv'' = ([], Inr sample_csv)"
proof -
  have c: "columns sample_csv = ten_columns" by (simp add: sample_csv_def)
  have "''lat'' \<in> set ten_columns" "''lng'' \<in> set ten_columns"
    by (simp_all add: ten_columns_def)
  then have "load_data (disk_with sample_csv) ''air_quality_index.csv'' =
      ([], Inr \<lparr>columns = map strip ten_columns, rows = rows sample_csv\<rparr>)"
    using load_data_parsed[of "disk_with sample_csv" "''air_quality_index.csv''" sample_csv]
    by (simp add: disk_with_def c sample_rows)
  moreover have "sample_csv = \<lparr>columns = ten_columns, rows = rows sample_csv\<rparr>"
    by (simp add: sample_csv_def)
  ultimately show ?thesis by (simp add: ten_columns_stripped)
qed

lemma sample_sum: "float_sum [50, 150, 80, 60, 70, 55] = 465"
  using float_sum_exact[of "[50, 150, 80, 60, 70, 55]"] by simp

lemma sample_mean: "float64 (155 / 2) = 155 / 2"
  using float64_fraction[of 155 2, OF coprime_bezout[of 155 1 2 "- 77"]]
  by (simp add: float_eval)

lemma sample_bounds:
  "getitem sample_csv ''AQI Value'' = Inr [Num 50, Num 150, Num 80, Num 60, Num 70, Num 55]"
  "series_min [Num 50, Num 150, Num 80, Num 60, Num 70, Num 55] = Inr (Num 50)"
  "series_max [Num 50, Num 150, Num 80, Num 60, Num 70, Num 55] = Inr (Num 150)"
  "series_mean [Num 50, Num 150, Num 80, Num 60, Num 70, Num 55] = Inr (Num (155 / 2))"
  by (simp_all add: sample_csv_def ten_columns_def getitem_def cell_at_def series_min_def
      series_max_def series_mean_def mean_of_def sample_sum sample_mean)

lemma sample_countries:
  "getitem sample_csv ''Country'' = Inr default_countries"
  "unique default_countries = default_countries"
  by (simp_all add: sample_csv_def ten_columns_def getitem_def cell_at_def default_countries_def
      unique_def)

lemma sample_filtered:
  "filtered sample_csv ''AQI Value'' 50 150 default_countries = Inr sample_csv"
  by (simp add: filtered_def filter_data_def sample_csv_def ten_columns_def getitem_def
      cell_at_def series_ge_def series_le_def float64_of_int_exact mask_and_def bool_index_def
      isin_def isin_rows_def default_countries_def)

lemma sample_stats:
  "get_stats sample_csv ''AQI Value'' = Inr (Num (155 / 2), Num 50, Num 150)"
  by (simp add: get_stats_def sample_bounds)

lemma sample_run:
  "script default_ui (disk_with sample_csv) =
     ([SidebarHeader ''Filters'', SidebarMarkdown ''#### How to Use This App'',
       SidebarMarkdown
         (''- Select a pollutant and AQI range  '' @ [CHR 0x0A] @
          ''- Choose countries and cities  '' @ [CHR 0x0A] @
          ''- Explore charts, tables, and the map''),
       Title page_title,
       ShowingFor ''Overall AQI'' 50 150
         ''United States of America, China, Brazil, Italy, Russian Federation, France'',
       DataTable sample_csv,
       Metric ''Average AQI'' (Num (155 / 2)), Metric ''Minimum AQI'' (Num 50),
       Metric ''Maximum AQI'' (Num 150)],
      Raised plt_undefined)"
proof -
  have m: "missing_cols sample_csv = []"
    by (simp add: missing_cols_def required_cols_def sample_csv_def ten_columns_def)
  have j: "join_cells '', '' default_countries =
      Inr ''United States of America, China, Brazil, Italy, Russian Federation, France''"
    by (simp add: join_cells_def default_countries_def)
  show ?thesis
    unfolding script_def load_sample
    by (simp add: check_columns_def m sidebar_controls_def attempt_def default_ui_def
        pollutant_dict_def dict_getitem_def sample_bounds sample_countries
        apply_filters_def sample_filtered j summary_metrics_def sample_stats
        top10_chart_raises[OF sample_stats])
qed

text \<open>
  C10, as the code has it. Whatever the file and whatever the user does, a run never
  gets to the end of the script and renders none of the components of lines 108 to 182
  (bar chart, histogram, pivot table, level codes, category counts, map, download button,
  list of AQI columns). A run that gets as far as the metrics of lines 101 to 103 ends at
  line 107 with the \<open>NameError\<close> for the unbound name \<open>plt\<close>.
\<close>

theorem script_stops_by_line_107:
  "snd (script u read_csv) \<noteq> Finished \<and>
   list_all (\<lambda>w. \<not> later_component w) (fst (script u read_csv)) \<and>
   ((\<exists>t c. Metric t c \<in> set (fst (script u read_csv))) \<longrightarrow>
      snd (script u read_csv) = Raised plt_undefined)"
proof (cases "load_data read_csv ''air_quality_index.csv''")
  case (Pair messages res)
  have ok: "list_all (\<lambda>w. \<not> later_component w) (map StError messages)"
       "\<forall>t c. Metric t c \<notin> set (map StError messages)"
    by (auto simp: list_all_iff)
  show ?thesis
  proof (cases res)
    case (Inl e)
    with Pair ok show ?thesis by (auto simp: script_def)
  next
    case (Inr data)
    with Pair have "script u read_csv = check_columns u data (map StError messages)"
      by (simp add: script_def)
    with check_columns_outcome[OF ok, of u data] show ?thesis by simp
  qed
qed

theorem script_stops_by_line_107_witness:
  "Metric ''Maximum AQI'' (Num 150) \<in> set (fst (script default_ui (disk_with sample_csv))) \<and>
   snd (script default_ui (disk_with sample_csv)) = Raised plt_undefined \<and>
   snd (script default_ui (disk_with sample_csv)) \<noteq> Finished \<and>
   list_all (\<lambda>w. \<not> later_component w) (fst (script default_ui (disk_with sample_csv)))"
proof -
  have "Metric ''Maximum AQI'' (Num 150) \<in> set (fst (script default_ui (disk_with sample_csv)))"
    by (simp add: sample_run)
  with script_stops_by_line_107[of default_ui "disk_with sample_csv"] show ?thesis
    by blast
qed

text \<open>
  A file that loads and has all ten columns, but no row: the minimum of the pollutant
  column is NaN and \<open>int\<close> of it raises \<open>ValueError\<close> at line 72; line 107 is never
  reached.
\<close>

theorem script_header_only_counterexample:
  "load_data (disk_with header_only_csv) ''air_quality_index.csv'' = ([], Inr header_only_csv) \<and>
   missing_cols header_only_csv = [] \<and>
   script default_ui (disk_with header_only_csv) =
     ([SidebarHeader ''Filters'', SidebarMarkdown ''#### How to Use This App'',
       SidebarMarkdown
         (''- Select a pollutant and AQI range  '' @ [CHR 0x0A] @
          ''- Choose countries and cities  '' @ [CHR 0x0A] @
          ''- Explore charts, tables, and the map'')],
      Raised (ValueError ''cannot convert float NaN to integer'')) \<and>
   Raised (ValueError ''cannot convert float NaN to integer'') \<noteq> Raised plt_undefined"
  using load_header_only header_only_run
  by (simp add: missing_cols_def required_cols_def header_only_csv_def ten_columns_def
      plt_undefined_def)

subsection \<open>The check of the required columns\<close>

text \<open>
  C4, as the code has it. The columns checked are the five pollutant columns. If one of
  them is absent, the check shows one error that lists the absent ones, in the order of
  \<open>required_cols\<close>, and halts the run with \<open>st.stop()\<close>: nothing more is rendered.
  If all five are there, the check shows nothing and the run goes on with the sidebar.
\<close>

theorem check_columns_five:
  "set (missing_cols data) =
     {''AQI Value'', ''CO AQI Value'', ''Ozone AQI Value'', ''NO2 AQI Value'',
      ''PM2.5 AQI Value''} - set (columns data) \<and>
   (missing_cols data \<noteq> [] \<longrightarrow>
      check_columns u data out =
        (out @ [StError (''Missing expected columns: '' @ py_repr_list (missing_cols data))],
         Stopped)) \<and>
   (missing_cols data = [] \<longrightarrow>
      check_columns u data out =
        sidebar_controls u data
          (out @ [SidebarHeader ''Filters'', SidebarMarkdown ''#### How to Use This App'',
                  SidebarMarkdown
                    (''- Select a pollutant and AQI range  '' @ [CHR 0x0A] @
                     ''- Choose countries and cities  '' @ [CHR 0x0A] @
                     ''- Explore charts, tables, and the map'')]))"
proof (intro conjI impI)
  show "set (missing_cols data) =
     {''AQI Value'', ''CO AQI Value'', ''Ozone AQI Value'', ''NO2 AQI Value'',
      ''PM2.5 AQI Value''} - set (columns data)"
    unfolding missing_cols_def required_cols_def set_filter by auto
qed (simp_all add: check_columns_def)

lemma two_missing: "missing_cols two_missing_csv = [''CO AQI Value'', ''NO2 AQI Value'']"
  by (simp add: missing_cols_def required_cols_def two_missing_csv_def)

theorem check_columns_five_witness:
  "missing_cols two_missing_csv = [''CO AQI Value'', ''NO2 AQI Value''] \<and>
   check_columns default_ui two_missing_csv [] =
     ([StError (''Missing expected columns: '' @
                py_repr_list [''CO AQI Value'', ''NO2 AQI Value''])], Stopped) \<and>
   missing_cols sample_csv = [] \<and>
   check_columns default_ui sample_csv [] = script default_ui (disk_with sample_csv)"
proof -
  have m: "missing_cols sample_csv = []"
    by (simp add: missing_cols_def required_cols_def sample_csv_def ten_columns_def)
  have "check_columns default_ui sample_csv [] = script default_ui (disk_with sample_csv)"
    by (simp add: script_def load_sample)
  with check_columns_five[of two_missing_csv default_ui "[]"] two_missing m
  show ?thesis by simp
qed

text \<open>
  A frame without \<open>City\<close>, \<open>Country\<close> and \<open>AQI Category\<close> passes the check: no
  error names them, the run is not halted and goes on until line 80 reads \<open>Country\<close>.
\<close>

theorem check_columns_unchecked_counterexample:
  "''City'' \<notin> set (columns pollutants_only_csv) \<and>
   ''Country'' \<notin> set (columns pollutants_only_csv) \<and>
   ''AQI Category'' \<notin> set (columns pollutants_only_csv) \<and>
   missing_cols pollutants_only_csv = [] \<and>
   check_columns default_ui pollutants_only_csv [] =
     ([SidebarHeader ''Filters'', SidebarMarkdown ''#### How to Use This App'',
       SidebarMarkdown
         (''- Select a pollutant and AQI range  '' @ [CHR 0x0A] @
          ''- Choose countries and cities  '' @ [CHR 0x0A] @
          ''- Explore charts, tables, and the map'')],
      Raised (KeyError (py_repr ''Country'')))"
  by (simp add: check_columns_def missing_cols_def required_cols_def pollutants_only_csv_def
      sidebar_controls_def attempt_def default_ui_def pollutant_dict_def dict_getitem_def
      getitem_def cell_at_def series_min_def series_max_def)

subsection \<open>The numeric range filter\<close>










subsection \<open>The two filtered views\<close>

lemma cell_in_cell:
  "index_of name cols = Some i \<Longrightarrow> cell_in cols name vals r = (cell_at r i \<in> set vals)"
  by (simp add: cell_in_def row_get_def)

lemma isin_rows_filter:
  assumes "name \<in> set (columns df)"
  shows "isin_rows df name vals =
           Inr (df\<lparr>rows := filter (cell_in (columns df) name vals) (rows df)\<rparr>)"
proof -
  from assms obtain i where i: "index_of name (columns df) = Some i"
    using index_of_Some_iff by blast
  have "isin (map (\<lambda>r. cell_at r i) (rows df)) vals =
        map (cell_in (columns df) name vals) (rows df)"
    by (simp add: isin_def cell_in_cell[OF i])
  then show ?thesis
    using i by (simp add: isin_rows_def getitem_def bool_index_def filter_zip_mask)
qed

lemma isin_rows_KeyError:
  "name \<notin> set (columns df) \<Longrightarrow> isin_rows df name vals = Inl (KeyError (py_repr name))"
  by (simp add: isin_rows_def getitem_def index_of_None_iff[symmetric])

lemma cell_in_empty: "\<not> cell_in cols name [] r"
  by (simp add: cell_in_def split: sum.splits)

lemma numeric_after_filter:
  assumes "getitem df p = Inr s" "\<not> list_ex is_str s"
  shows "\<exists>s'. getitem (df\<lparr>rows := filter P (rows df)\<rparr>) p = Inr s' \<and> \<not> list_ex is_str s'"
  using assms by (auto simp: getitem_def list_ex_iff split: option.splits)

lemma filtered_rows:
  assumes "getitem data p = Inr s" "\<not> list_ex is_str s" "''Country'' \<in> set (columns data)"
    and "\<bar>lo\<bar> \<le> 2 ^ 53" "\<bar>hi\<bar> \<le> 2 ^ 53"
  shows "filtered data p lo hi countries =
     Inr (data\<lparr>rows := filter (\<lambda>r. in_range (columns data) p (of_int lo) (of_int hi) r \<and>
                                   cell_in (columns data) ''Country'' countries r)
                            (rows data)\<rparr>)"
  using assms(3)
  by (simp add: filtered_def filter_data_exact[OF assms(1,2,4,5)] isin_rows_filter conj_commute)

lemma filtered_data_rows:
  assumes "''City'' \<in> set (columns data)" "''AQI Category'' \<in> set (columns data)"
  shows "filtered_data data cities categories =
     Inr (data\<lparr>rows := filter (\<lambda>r. (cities = [] \<or> cell_in (columns data) ''City'' cities r) \<and>
                                   (categories = [] \<or>
                                      cell_in (columns data) ''AQI Category'' categories r))
                            (rows data)\<rparr>)"
  using assms
  by (simp add: filtered_data_def isin_rows_filter conj_commute)

lemma filtered_data_no_selection: "filtered_data data [] [] = Inr data"
  by (simp add: filtered_data_def)

lemma filtered_data_no_city:
  "filtered_data data [] categories =
     (if categories \<noteq> [] then isin_rows data ''AQI Category'' categories else Inr data)"
  by (simp add: filtered_data_def)

lemma filtered_data_no_category:
  "filtered_data data cities [] =
     (if cities \<noteq> [] then isin_rows data ''City'' cities else Inr data)"
  by (cases "isin_rows data ''City'' cities") (simp_all add: filtered_data_def)

lemma country_then_range:
  assumes "getitem data p = Inr s" "\<not> list_ex is_str s" "''Country'' \<in> set (columns data)"
    and "\<bar>lo\<bar> \<le> 2 ^ 53" "\<bar>hi\<bar> \<le> 2 ^ 53"
  shows "(case isin_rows data ''Country'' countries of
            Inl e \<Rightarrow> Inl e
          | Inr f \<Rightarrow> filter_data f p lo hi) =
         filtered data p lo hi countries"
proof -
  let ?Q = "cell_in (columns data) ''Country'' countries"
  let ?f = "data\<lparr>rows := filter ?Q (rows data)\<rparr>"
  from numeric_after_filter[OF assms(1,2), of ?Q]
  obtain s' where s': "getitem ?f p = Inr s'" "\<not> list_ex is_str s'" by blast
  have "filter_data ?f p lo hi =
        Inr (data\<lparr>rows := filter (\<lambda>r. in_range (columns data) p (of_int lo) (of_int hi) r \<and> ?Q r)
                               (rows data)\<rparr>)"
    by (simp add: filter_data_exact[OF s' assms(4,5)] conj_commute)
  then show ?thesis
    using assms(3) by (simp add: isin_rows_filter filtered_rows[OF assms])
qed

lemma category_then_city:
  assumes "''City'' \<in> set (columns data)" "''AQI Category'' \<in> set (columns data)"
  shows "(case (if categories \<noteq> [] then isin_rows data ''AQI Category'' categories
                else Inr data) of
            Inl e \<Rightarrow> Inl e
          | Inr fd \<Rightarrow> (if cities \<noteq> [] then isin_rows fd ''City'' cities else Inr fd)) =
         filtered_data data cities categories"
  using assms
  by (auto simp: filtered_data_rows isin_rows_filter conj_commute)

lemmas sample_eval =
  sample_csv_def ten_columns_def getitem_def cell_at_def row_get_def in_range_def cell_in_def
  default_countries_def

lemma sample_columns:
  "''Country'' \<in> set (columns sample_csv)" "''City'' \<in> set (columns sample_csv)"
  "''AQI Category'' \<in> set (columns sample_csv)"
  by (simp_all add: sample_csv_def ten_columns_def)

lemma sample_numeric: "\<not> list_ex is_str [Num 50, Num 150, Num 80, Num 60, Num 70, Num 55]"
  by simp

lemma small_bounds: "\<bar>50 :: int\<bar> \<le> 2 ^ 53" "\<bar>60 :: int\<bar> \<le> 2 ^ 53" "\<bar>150 :: int\<bar> \<le> 2 ^ 53"
  by simp_all

lemma sample_range_country:
  "filter (\<lambda>r. in_range (columns sample_csv) ''AQI Value'' (of_int 60) (of_int 150) r \<and>
               cell_in (columns sample_csv) ''Country'' default_countries r)
     (rows sample_csv) =
   [rows sample_csv ! 1, rows sample_csv ! 2, rows sample_csv ! 3, rows sample_csv ! 4]"
  by (simp add: sample_eval)

lemma sample_paris:
  "filter (cell_in (columns sample_csv) ''City'' [Str ''Paris'']) (rows sample_csv) =
   [rows sample_csv ! 5]"
  by (simp add: sample_eval)

text \<open>
  C1, where the code departs from it. The country filter of line 90 has no guard: with no
  country selected, \<open>isin\<close> is False on every row and the view \<open>filtered\<close> has no row
  at all, whatever the data and whatever the range (its bounds are ints of magnitude at
  most \<open>2^53\<close>, as a slider gives them). The city and category filters of lines 152 to 156 are guarded
  by \<open>if selected_cities:\<close> and \<open>if selected_categories:\<close> and leave the data as it
  is when nothing is selected (\<open>filtered_data_no_selection\<close>, \<open>filtered_data_no_city\<close>,
  \<open>filtered_data_no_category\<close>).
\<close>

theorem filtered_no_countries:
  assumes "getitem data p = Inr s" "\<not> list_ex is_str s" "''Country'' \<in> set (columns data)"
    and "\<bar>lo\<bar> \<le> 2 ^ 53" "\<bar>hi\<bar> \<le> 2 ^ 53"
  shows "filtered data p lo hi [] = Inr (data\<lparr>rows := []\<rparr>)"
  by (simp add: filtered_rows[OF assms] cell_in_empty)

theorem filtered_no_countries_witness:
  "filtered sample_csv ''AQI Value'' 50 150 [] = Inr (sample_csv\<lparr>rows := []\<rparr>) \<and>
   filtered sample_csv ''AQI Value'' 50 150 default_countries = Inr sample_csv \<and>
   length (rows sample_csv) = 6 \<and>
   filtered_data sample_csv [] [] = Inr sample_csv"
  using filtered_no_countries[OF sample_bounds(1) sample_numeric sample_columns(1)
      small_bounds(1,3)]
    sample_filtered filtered_data_no_selection[of sample_csv]
  by (simp add: sample_csv_def)

text \<open>
  C2, as the code has it. The script builds two views, each from its own predicates. On
  data whose pollutant column holds no text and which has the columns \<open>Country\<close>,
  \<open>City\<close> and \<open>AQI Category\<close>, and for bounds of magnitude at most \<open>2^53\<close>, as a
  slider gives them: with some country selected, \<open>filtered\<close> is exactly the
  rows of the data, in order, that are in the range and whose country is selected, and
  the country filter followed by the range filter gives the same view; \<open>filtered_data\<close>
  is exactly the rows whose city is selected (or no city is selected) and whose category is
  selected (or no category is selected), and the category filter followed by the city
  filter gives the same view.
\<close>

theorem views_conjunction_commute:
  assumes "getitem data p = Inr s" and "\<not> list_ex is_str s"
    and "''Country'' \<in> set (columns data)" and "''City'' \<in> set (columns data)"
    and "''AQI Category'' \<in> set (columns data)" and "countries \<noteq> []"
    and "\<bar>lo\<bar> \<le> 2 ^ 53" and "\<bar>hi\<bar> \<le> 2 ^ 53"
  shows
    "filtered data p lo hi countries =
       Inr (data\<lparr>rows :=
              filter (\<lambda>r. in_range (columns data) p (of_int lo) (of_int hi) r \<and>
                          cell_in (columns data) ''Country'' countries r)
                (rows data)\<rparr>) \<and>
     (case isin_rows data ''Country'' countries of
        Inl e \<Rightarrow> Inl e
      | Inr f \<Rightarrow> filter_data f p lo hi) =
       filtered data p lo hi countries \<and>
     filtered_data data cities categories =
       Inr (data\<lparr>rows :=
              filter (\<lambda>r. (cities = [] \<or> cell_in (columns data) ''City'' cities r) \<and>
                          (categories = [] \<or>
                             cell_in (columns data) ''AQI Category'' categories r))
                (rows data)\<rparr>) \<and>
     (case (if categories \<noteq> [] then isin_rows data ''AQI Category'' categories
            else Inr data) of
        Inl e \<Rightarrow> Inl e
      | Inr fd \<Rightarrow> (if cities \<noteq> [] then isin_rows fd ''City'' cities else Inr fd)) =
       filtered_data data cities categories"
  using filtered_rows[OF assms(1,2,3,7,8)] country_then_range[OF assms(1,2,3,7,8)]
    filtered_data_rows[OF assms(4,5)] category_then_city[OF assms(4,5)]
  by simp

theorem views_conjunction_commute_witness:
  "filtered sample_csv ''AQI Value'' 60 150 default_countries =
     Inr (sample_csv\<lparr>rows := [rows sample_csv ! 1, rows sample_csv ! 2, rows sample_csv ! 3,
                              rows sample_csv ! 4]\<rparr>) \<and>
   filtered_data sample_csv [Str ''Paris''] [] =
     Inr (sample_csv\<lparr>rows := [rows sample_csv ! 5]\<rparr>)"
proof -
  have ne: "default_countries \<noteq> []" by (simp add: default_countries_def)
  note t = views_conjunction_commute[where cities = "[Str ''Paris'']" and categories = "[]",
      OF sample_bounds(1) sample_numeric sample_columns ne small_bounds(2,3)]
  from t have a: "filtered sample_csv ''AQI Value'' 60 150 default_countries =
       Inr (sample_csv\<lparr>rows :=
              filter (\<lambda>r. in_range (columns sample_csv) ''AQI Value'' (of_int 60) (of_int 150) r \<and>
                          cell_in (columns sample_csv) ''Country'' default_countries r)
                (rows sample_csv)\<rparr>)"
    by (rule conjunct1)
  from t have b: "filtered_data sample_csv [Str ''Paris''] [] =
       Inr (sample_csv\<lparr>rows :=
              filter (cell_in (columns sample_csv) ''City'' [Str ''Paris'']) (rows sample_csv)\<rparr>)"
    by simp
  show ?thesis
    unfolding a b sample_range_country sample_paris by simp
qed

text \<open>
  Range 60 to 150, the six default countries, the city Paris (AQI 55): no row satisfies
  all the predicates together, yet \<open>filtered\<close> has four rows (it knows no city) and
  \<open>filtered_data\<close> has the row of Paris (it knows no range and no country).
\<close>

theorem one_view_of_all_counterexample:
  "filtered sample_csv ''AQI Value'' 60 150 default_countries =
     Inr (sample_csv\<lparr>rows := [rows sample_csv ! 1, rows sample_csv ! 2, rows sample_csv ! 3,
                              rows sample_csv ! 4]\<rparr>) \<and>
   filtered_data sample_csv [Str ''Paris''] [] =
     Inr (sample_csv\<lparr>rows := [rows sample_csv ! 5]\<rparr>) \<and>
   spec_filter sample_csv ''AQI Value'' 60 150 default_countries [Str ''Paris''] [] = []"
proof -
  have "spec_filter sample_csv ''AQI Value'' 60 150 default_countries [Str ''Paris''] [] = []"
    by (simp add: spec_filter_def sample_eval)
  moreover have "filtered sample_csv ''AQI Value'' 60 150 default_countries =
     Inr (sample_csv\<lparr>rows := [rows sample_csv ! 1, rows sample_csv ! 2, rows sample_csv ! 3,
                              rows sample_csv ! 4]\<rparr>)"
    unfolding filtered_rows[OF sample_bounds(1) sample_numeric sample_columns(1)
        small_bounds(2,3)]
      sample_range_country by simp
  moreover have "filtered_data sample_csv [Str ''Paris''] [] =
     Inr (sample_csv\<lparr>rows := [rows sample_csv ! 5]\<rparr>)"
    by (simp add: filtered_data_rows[OF sample_columns(2,3)] sample_paris)
  ultimately show ?thesis by simp
qed

subsection \<open>The top ten\<close>

lemma prefix_filter_take: "prefix (filter P (take n xs)) (filter P xs)"
proof -
  have "filter P xs = filter P (take n xs) @ filter P (drop n xs)"
    by (metis append_take_drop_id filter_append)
  then show ?thesis by (simp add: prefix_def)
qed

lemma mset_take_subset: "mset (take n xs) \<subseteq># mset xs"
proof -
  have "mset xs = mset (take n xs) + mset (drop n xs)"
    by (metis append_take_drop_id mset_append)
  then show ?thesis by simp
qed

lemma nlargest_ranked:
  assumes "index_of col (columns df) = Some i"
    and "\<not> list_ex (\<lambda>r. is_str (cell_at r i)) (rows df)"
  shows "nlargest n col df = Inr (df\<lparr>rows := take n (ranked i (rows df))\<rparr>)"
  using assms by (simp add: nlargest_def)

lemma length_ranked: "length (ranked i rs) = length rs"
  by (simp add: ranked_def sum_length_filter_compl add.commute)

lemma mset_ranked: "mset (ranked i rs) = mset rs"
  by (simp add: ranked_def)

lemma num_cell:
  assumes "\<not> is_str c" "\<not> is_nan c"
  shows "c = Num (num_val c)"
  using assms by (cases c) auto

lemma sorted_ranked:
  assumes "\<not> list_ex (\<lambda>r. is_str (cell_at r i)) rs"
  shows "sorted_wrt (\<lambda>a b. key_of (cell_at b i) \<le> key_of (cell_at a i)) (ranked i rs)"
proof -
  let ?D = "filter (\<lambda>r. \<not> is_nan (cell_at r i)) rs"
  let ?S = "sort_key (\<lambda>r. - num_val (cell_at r i)) ?D"
  let ?N = "filter (\<lambda>r. is_nan (cell_at r i)) rs"
  have num: "key_of (cell_at r i) = Some (num_val (cell_at r i))" if "r \<in> set ?S" for r
  proof -
    from that assms have "\<not> is_str (cell_at r i)" "\<not> is_nan (cell_at r i)"
      by (auto simp: list_ex_iff)
    from num_cell[OF this] show ?thesis by (metis key_of.simps(1))
  qed
  have nan: "key_of (cell_at r i) = None" if "r \<in> set ?N" for r
    using that by (cases "cell_at r i") auto
  have "sorted (map (\<lambda>r. - num_val (cell_at r i)) ?S)"
    by (rule sorted_sort_key)
  then have "sorted_wrt (\<lambda>a b. - num_val (cell_at a i) \<le> - num_val (cell_at b i)) ?S"
    by (simp add: sorted_map)
  then have S: "sorted_wrt (\<lambda>a b. key_of (cell_at b i) \<le> key_of (cell_at a i)) ?S"
    by (rule sorted_wrt_mono_rel[rotated]) (simp add: num)
  have N: "sorted_wrt (\<lambda>a b. key_of (cell_at b i) \<le> key_of (cell_at a i)) ?N"
    by (rule sorted_wrt_mono_rel[of _ "\<lambda>a b. True"]) (simp_all add: nan)
  show ?thesis
    unfolding ranked_def sorted_wrt_append
    using S N nan by auto
qed

lemma stable_ranked:
  assumes "\<not> list_ex (\<lambda>r. is_str (cell_at r i)) rs"
  shows "filter (\<lambda>r. cell_at r i = k) (ranked i rs) = filter (\<lambda>r. cell_at r i = k) rs"
proof (cases k)
  case NaN
  have "filter (\<lambda>r. cell_at r i = NaN) (sort_key (\<lambda>r. - num_val (cell_at r i))
          (filter (\<lambda>r. \<not> is_nan (cell_at r i)) rs)) = []"
    by (auto simp: filter_empty_conv)
  moreover have "filter (\<lambda>r. cell_at r i = NaN) (filter (\<lambda>r. is_nan (cell_at r i)) rs)
      = filter (\<lambda>r. cell_at r i = NaN) rs"
    by (auto intro: filter_cong)
  ultimately show ?thesis using NaN by (simp add: ranked_def)
next
  case (Str t)
  have "filter (\<lambda>r. cell_at r i = Str t) rs = []"
    using assms by (auto simp: filter_empty_conv list_ex_iff)
  moreover have "filter (\<lambda>r. cell_at r i = Str t) (ranked i rs) = []"
    using assms by (auto simp: filter_empty_conv list_ex_iff ranked_def)
  ultimately show ?thesis using Str by simp
next
  case (Num v)
  let ?f = "\<lambda>r. - num_val (cell_at r i)"
  let ?D = "filter (\<lambda>r. \<not> is_nan (cell_at r i)) rs"
  have eq: "(cell_at r i = Num v) = (?f r = - v)" if "r \<in> set ?D" for r
  proof -
    from that assms have "\<not> is_str (cell_at r i)" "\<not> is_nan (cell_at r i)"
      by (auto simp: list_ex_iff)
    from num_cell[OF this] show ?thesis by (metis cell.inject(1) neg_equal_iff_equal num_val.simps(1))
  qed
  have "filter (\<lambda>r. cell_at r i = Num v) (sort_key ?f ?D) =
        filter (\<lambda>r. ?f r = - v) (sort_key ?f ?D)"
    by (rule filter_cong) (simp_all add: eq)
  also have "\<dots> = filter (\<lambda>r. ?f r = - v) ?D"
    by (rule sort_key_stable)
  also have "\<dots> = filter (\<lambda>r. cell_at r i = Num v) ?D"
    by (rule filter_cong) (simp_all add: eq)
  also have "\<dots> = filter (\<lambda>r. cell_at r i = Num v) rs"
    by (auto intro: filter_cong)
  finally have "filter (\<lambda>r. cell_at r i = Num v) (sort_key ?f ?D) =
        filter (\<lambda>r. cell_at r i = Num v) rs" .
  moreover have "filter (\<lambda>r. cell_at r i = Num v) (filter (\<lambda>r. is_nan (cell_at r i)) rs) = []"
    by (auto simp: filter_empty_conv)
  ultimately show ?thesis using Num by (simp add: ranked_def)
qed

text \<open>
  C6. On a view whose column \<open>col\<close> (the \<open>i\<close>-th) holds no text, \<open>nlargest n col\<close>
  returns a frame with the columns of the view whose rows are rows of the view, each at
  most as often as in the view; there are \<open>min n (len view)\<close> of them; they are in
  descending order of the value in the column, a missing value ranking below every number;
  and rows of equal value are in their order in the view, the earliest ones being kept.
  The script calls it with \<open>n = 10\<close>.
\<close>

theorem nlargest_top_n:
  assumes "index_of col (columns view) = Some i"
    and "\<not> list_ex (\<lambda>r. is_str (cell_at r i)) (rows view)"
  shows "\<exists>top. nlargest n col view = Inr top \<and>
           columns top = columns view \<and>
           length (rows top) = min n (length (rows view)) \<and>
           mset (rows top) \<subseteq># mset (rows view) \<and>
           sorted_wrt (\<lambda>a b. key_of (cell_at b i) \<le> key_of (cell_at a i)) (rows top) \<and>
           (\<forall>k. prefix (filter (\<lambda>r. cell_at r i = k) (rows top))
                       (filter (\<lambda>r. cell_at r i = k) (rows view)))"
proof -
  let ?top = "view\<lparr>rows := take n (ranked i (rows view))\<rparr>"
  have "nlargest n col view = Inr ?top"
    by (rule nlargest_ranked[OF assms])
  moreover have "length (rows ?top) = min n (length (rows view))"
    by (simp add: length_ranked min.commute)
  moreover have "mset (rows ?top) \<subseteq># mset (rows view)"
    using mset_take_subset[of n "ranked i (rows view)"] by (simp add: mset_ranked)
  moreover have "sorted_wrt (\<lambda>a b. key_of (cell_at b i) \<le> key_of (cell_at a i)) (rows ?top)"
    using sorted_ranked[OF assms(2)] by (simp add: sorted_wrt_take)
  moreover have "prefix (filter (\<lambda>r. cell_at r i = k) (rows ?top))
                       (filter (\<lambda>r. cell_at r i = k) (rows view))" for k
    using prefix_filter_take[of "\<lambda>r. cell_at r i = k" n "ranked i (rows view)"]
    by (simp add: stable_ranked[OF assms(2)])
  ultimately show ?thesis by (intro exI[of _ ?top]) simp
qed

lemma ties_top3:
  "nlargest 3 ''AQI Value'' ties_csv =
     Inr \<lparr>columns = [''City'', ''AQI Value''],
          rows = [[Str ''F'', Num 90], [Str ''B'', Num 80], [Str ''D'', Num 80]]\<rparr>"
  by (simp add: nlargest_def ranked_def ties_csv_def cell_at_def)

lemma ties_top10:
  "nlargest 10 ''AQI Value'' ties_csv =
     Inr \<lparr>columns = [''City'', ''AQI Value''],
          rows = [[Str ''F'', Num 90], [Str ''B'', Num 80], [Str ''D'', Num 80],
                  [Str ''A'', Num 50], [Str ''E'', Num 50], [Str ''C'', NaN]]\<rparr>"
  by (simp add: nlargest_def ranked_def ties_csv_def cell_at_def)

theorem nlargest_top_n_witness:
  "index_of ''AQI Value'' (columns ties_csv) = Some 1 \<and>
   \<not> list_ex (\<lambda>r. is_str (cell_at r 1)) (rows ties_csv) \<and>
   (\<exists>top. nlargest 3 ''AQI Value'' ties_csv = Inr top \<and>
      length (rows top) = 3 \<and>
      rows top = [[Str ''F'', Num 90], [Str ''B'', Num 80], [Str ''D'', Num 80]]) \<and>
   (\<exists>top. nlargest 10 ''AQI Value'' ties_csv = Inr top \<and>
      length (rows top) = 6 \<and>
      rows top = [[Str ''F'', Num 90], [Str ''B'', Num 80], [Str ''D'', Num 80],
                  [Str ''A'', Num 50], [Str ''E'', Num 50], [Str ''C'', NaN]])"
proof -
  have i: "index_of ''AQI Value'' (columns ties_csv) = Some 1"
    by (simp add: ties_csv_def)
  have t: "\<not> list_ex (\<lambda>r. is_str (cell_at r 1)) (rows ties_csv)"
    by (simp add: ties_csv_def cell_at_def)
  have l: "length (rows ties_csv) = 6"
    by (simp add: ties_csv_def)
  from nlargest_top_n[OF i t, of 3] nlargest_top_n[OF i t, of 10] i t l
  show ?thesis
    by (simp add: ties_top3 ties_top10)
qed

subsection \<open>What every view of the script satisfies\<close>

lemma filter_data_Inr:
  assumes "filter_data df p lo hi = Inr f"
  obtains s l h where "getitem df p = Inr s" "\<not> list_ex is_str s"
    "float64_of_int lo = Inr l" "float64_of_int hi = Inr h"
  using assms
  by (auto simp: filter_data_def series_ge_def series_le_def split: sum.splits if_splits)

lemma in_range_Num:
  assumes "index_of p cols = Some j" "in_range cols p lo hi r"
  shows "\<exists>v. cell_at r j = Num v"
  using assms by (cases "cell_at r j") (auto simp: in_range_def row_get_def)

lemma isin_rows_Inr:
  assumes "isin_rows f name vals = Inr view"
  shows "columns view = columns f \<and> set (rows view) \<subseteq> set (rows f)"
proof -
  from assms obtain s where "view = bool_index f (isin s vals)"
    by (auto simp: isin_rows_def split: sum.splits)
  then show ?thesis
    by (auto simp: bool_index_def dest: set_zip_leftD)
qed

lemma filtered_Inr:
  assumes "filtered data p lo hi cs = Inr view"
  obtains j where "index_of p (columns view) = Some j"
    "\<forall>r \<in> set (rows view). \<exists>v. cell_at r j = Num v"
    "\<not> list_ex (\<lambda>r. is_str (cell_at r j)) (rows view)"
proof -
  from assms obtain f where f: "filter_data data p lo hi = Inr f"
    and v: "isin_rows f ''Country'' cs = Inr view"
    by (auto simp: filtered_def split: sum.splits)
  from f obtain s l h where s: "getitem data p = Inr s" "\<not> list_ex is_str s"
    "float64_of_int lo = Inr l" "float64_of_int hi = Inr h"
    by (rule filter_data_Inr)
  from s(1) obtain j where j: "index_of p (columns data) = Some j"
    by (auto simp: getitem_def split: option.splits)
  from f have ff: "f = data\<lparr>rows := filter (in_range (columns data) p l h) (rows data)\<rparr>"
    by (simp add: filter_data_rows[OF s])
  from isin_rows_Inr[OF v] have c: "columns view = columns data"
    and sub: "set (rows view) \<subseteq> set (filter (in_range (columns data) p l h) (rows data))"
    by (simp_all add: ff)
  have num: "\<forall>r \<in> set (rows view). \<exists>v. cell_at r j = Num v"
    using sub in_range_Num[OF j] by auto
  then have "\<not> list_ex (\<lambda>r. is_str (cell_at r j)) (rows view)"
    by (auto simp: list_ex_iff)
  with j c num show ?thesis by (intro that[of j]) simp_all
qed

subsection \<open>The pivot table\<close>






lemma float64_numeral: "numeral k \<le> (2 :: int) ^ 53 \<Longrightarrow> float64 (numeral k) = numeral k"
  using float64_of_int_rat[of "numeral k"] by simp

lemma float64_one: "float64 1 = 1"
  using float64_of_int_rat[of 1] by simp




lemma pivot_table_no_rows:
  assumes "index_of idx (columns view) = Some i" "index_of col (columns view) = Some j"
    and "rows view = []"
  shows "pivot_table view idx col = Inr \<lparr>columns = [idx], rows = []\<rparr>"
  using assms by (simp add: pivot_table_def group_keys_def)


lemma spec_example_filter:
  "filter_data spec_example_csv ''AQI Value'' 60 200 = Inr spec_view_csv"
  by (simp add: filter_data_def spec_example_csv_def spec_view_csv_def getitem_def cell_at_def
      series_ge_def series_le_def float64_of_int_exact mask_and_def bool_index_def)

lemma spec_example_stats:
  "get_stats spec_view_csv ''AQI Value'' = Inr (Num 115, Num 80, Num 150)"
  by (simp add: get_stats_def spec_view_csv_def getitem_def cell_at_def series_mean_def
      series_min_def series_max_def mean_of_def float_sum_def float64_numeral)


lemma spec_example_pivot_all:
  "pivot_table spec_example_csv ''Country'' ''AQI Value'' =
   Inr \<lparr>columns = [''Country'', ''AQI Value''],
        rows = [[Str ''FR'', Num 80], [Str ''US'', Num 100]]\<rparr>"
  by (simp add: pivot_table_def spec_example_csv_def cell_at_def group_keys_def mean_of_def
      float_sum_def float64_numeral less_eq_prod_def less_prod_def)





subsection \<open>Aggregates of an empty view\<close>

lemma cat_counts_empty: "rows view = [] \<Longrightarrow> cat_counts view = Inr []"
  by (simp add: cat_counts_def)

text \<open>
  C8. When the filters leave no row, the view is still a frame with the columns of the
  data, and no aggregate raises on it: \<open>get_stats\<close> returns the triple of NaN, the top
  ten is the empty view itself, and the category counts are the empty dict.
\<close>

theorem empty_view_aggregates:
  assumes "filtered data pollutant_col min_val max_val countries = Inr view"
    and "rows view = []"
  shows "get_stats view pollutant_col = Inr (NaN, NaN, NaN) \<and>
         nlargest 10 pollutant_col view = Inr view \<and>
         cat_counts view = Inr []"
proof -
  from assms(1) obtain j where j: "index_of pollutant_col (columns view) = Some j"
    by (rule filtered_Inr)
  have "get_stats view pollutant_col = Inr (NaN, NaN, NaN)"
    using j assms(2)
    by (simp add: get_stats_def getitem_def series_mean_def series_min_def series_max_def
        mean_of_def)
  moreover have "nlargest 10 pollutant_col view = Inr view"
    using j assms(2) by (simp add: nlargest_def ranked_def)
  ultimately show ?thesis
    using cat_counts_empty[OF assms(2)] by simp
qed

lemma sample_no_match:
  "filtered sample_csv ''AQI Value'' 200 300 default_countries = Inr (sample_csv\<lparr>rows := []\<rparr>)"
proof -
  have "filter (\<lambda>r. in_range (columns sample_csv) ''AQI Value'' (of_int 200) (of_int 300) r \<and>
                    cell_in (columns sample_csv) ''Country'' default_countries r)
          (rows sample_csv) = []"
    by (simp add: sample_eval)
  then show ?thesis
    by (simp add: filtered_rows[OF sample_bounds(1) sample_numeric sample_columns(1)])
qed

theorem empty_view_aggregates_witness:
  "filtered sample_csv ''AQI Value'' 200 300 default_countries = Inr (sample_csv\<lparr>rows := []\<rparr>) \<and>
   get_stats (sample_csv\<lparr>rows := []\<rparr>) ''AQI Value'' = Inr (NaN, NaN, NaN) \<and>
   nlargest 10 ''AQI Value'' (sample_csv\<lparr>rows := []\<rparr>) = Inr (sample_csv\<lparr>rows := []\<rparr>) \<and>
   cat_counts (sample_csv\<lparr>rows := []\<rparr>) = Inr []"
  using empty_view_aggregates[OF sample_no_match] sample_no_match by simp

subsection \<open>The category encoder\<close>

text \<open>
  C9. Each of the six category texts of the table is encoded as its severity code, and
  every other cell, a text that is not in the table or a missing category, is encoded as
  NaN; the encoder has a value for every cell.
\<close>

theorem encode_table:
  "encode (Str ''Good'') = Num 1 \<and>
   encode (Str ''Moderate'') = Num 2 \<and>
   encode (Str ''Unhealthy for Sensitive Groups'') = Num 3 \<and>
   encode (Str ''Unhealthy'') = Num 4 \<and>
   encode (Str ''Very Unhealthy'') = Num 5 \<and>
   encode (Str ''Hazardous'') = Num 6 \<and>
   (\<forall>t. t \<notin> {''Good'', ''Moderate'', ''Unhealthy for Sensitive Groups'', ''Unhealthy'',
              ''Very Unhealthy'', ''Hazardous''} \<longrightarrow> encode (Str t) = NaN) \<and>
   encode NaN = NaN \<and> (\<forall>v. encode (Num v) = NaN)"
  by (simp add: encode_def series_map_def category_map_def)

theorem encode_table_witness:
  "encode (Str ''Good'') = Num 1 \<and> encode (Str ''Severe'') = NaN \<and> encode (Str []) = NaN"
  using encode_table by simp

end
